theory Spec2Isabelle
  imports Main
begin

section \<open>Data model (prisma/schema.prisma)\<close>

text \<open>
  Identifiers are cuid strings. Generated primary keys of rows that nothing reads back
  (\<open>Response.id\<close>, \<open>Score.id\<close>, \<open>QuizPosition.id\<close>) and the timestamp columns are left
  out of the rows: they are produced by the database, not by the code under study.
\<close>

type_synonym ident = string

datatype UserRole = MODERATOR | CONTESTANT | AUDIENCE

datatype QuizType = multiple_choice | yes_no | simultaneous

datatype QuestionType = question_multiple_choice | question_yes_no

record Quiz =
  quiz_id :: ident
  quiz_name :: string
  quiz_isActive :: bool
  winnerId :: "ident option"

text \<open>
  \<open>roundNumber\<close> and \<open>questionsPerParticipant\<close> are validated by \<open>CreateRoundDto\<close>
  (\<open>@IsInt() @Min(1)\<close>); they are natural numbers here, and the code's own treatment of
  0 (\<open>questionsPerParticipant || 3\<close>) is written out where it occurs.
\<close>

record Round =
  round_id :: ident
  round_quizId :: ident
  roundNumber :: nat
  quizType :: QuizType
  timePerQuestion :: "nat option"
  questionsPerParticipant :: nat
  round_isActive :: bool

record Question =
  question_id :: ident
  question_quizId :: ident
  questionNumber :: nat
  questionText :: string
  questionType :: QuestionType
  options :: "string list"
  correctAnswerIndex :: int
  isAnswered :: bool

record User =
  user_id :: ident
  username :: string
  role :: UserRole
  user_quizId :: "ident option"

record Response =
  userId :: ident
  quizId :: ident
  roundId :: ident
  questionId :: ident
  selectedIndex :: int
  isCorrect :: bool
  pointsEarned :: int

record Score =
  score_userId :: ident
  score_quizId :: ident
  score_roundId :: ident
  roundScore :: int
  questionsAnswered :: nat
  questionsCorrect :: nat

record QuizPosition =
  position_userId :: ident
  position_quizId :: ident
  position :: nat
  totalScore :: int

record ParticipantOrder =
  order_quizId :: ident
  order_userId :: ident
  orderIndex :: nat

text \<open>The persistent store behind \<open>PrismaService\<close>: one list of rows per table, in table order.\<close>

record db =
  quizzes :: "Quiz list"
  rounds :: "Round list"
  questions :: "Question list"
  users :: "User list"
  responses :: "Response list"
  scores :: "Score list"
  positions :: "QuizPosition list"
  participantOrders :: "ParticipantOrder list"

text \<open>
  Exceptions are values. \<open>ForeignKeyViolation\<close> is Prisma's error for a \<open>create\<close>
  whose relation column names a row that does not exist, \<open>ValueOutOfRange\<close> its error
  for a number that does not fit an \<open>Int\<close> column (32 bits, signed); \<open>TypeError\<close> is
  what JavaScript throws on a property read of \<open>null\<close> or \<open>undefined\<close>.
\<close>

datatype error =
    NotFoundException string
  | ConflictException string
  | Error string
  | TypeError string
  | ForeignKeyViolation string
  | ValueOutOfRange string

definition int4 :: "int \<Rightarrow> bool" where
  "int4 n = (- 2147483648 \<le> n \<and> n \<le> 2147483647)"

section \<open>QuizService (src/quiz/quiz.service.ts)\<close>

definition findQuizById :: "db \<Rightarrow> ident \<Rightarrow> error + Quiz" where
  "findQuizById d qid =
     (case find (\<lambda>q. quiz_id q = qid) (quizzes d) of
        None \<Rightarrow> Inl (NotFoundException (''Quiz with ID '' @ qid @ '' not found''))
      | Some q \<Rightarrow> Inr q)"

text \<open>
  \<open>prisma.score.upsert\<close> on the unique key \<open>(userId, quizId, roundId)\<close>: the matching row
  is updated, otherwise a row is created; the new row's three relation columns must name
  existing rows. The table is read back by \<open>findMany\<close> without \<open>orderBy\<close>, and
  PostgreSQL then returns an updated row after the rows that were not touched, so the
  updated row goes last, like a created one.
\<close>

definition score_matches :: "ident \<Rightarrow> ident \<Rightarrow> ident \<Rightarrow> Score \<Rightarrow> bool" where
  "score_matches u qz r s = (score_userId s = u \<and> score_quizId s = qz \<and> score_roundId s = r)"

definition score_upsert :: "db \<Rightarrow> Score \<Rightarrow> (error + unit) \<times> db" where
  "score_upsert d row =
     (let u = score_userId row; qz = score_quizId row; r = score_roundId row
      in if list_ex (score_matches u qz r) (scores d)
         then (Inr (), d\<lparr>scores := filter (\<lambda>s. \<not> score_matches u qz r s) (scores d) @ [row]\<rparr>)
         else if u \<in> set (map user_id (users d)) \<and> qz \<in> set (map quiz_id (quizzes d))
                 \<and> r \<in> set (map round_id (rounds d))
         then (Inr (), d\<lparr>scores := scores d @ [row]\<rparr>)
         else (Inl (ForeignKeyViolation ''Score''), d))"

definition calculateRoundScore :: "db \<Rightarrow> ident \<Rightarrow> ident \<Rightarrow> ident \<Rightarrow> (error + unit) \<times> db" where
  "calculateRoundScore d u qz r =
     (let rs = filter (\<lambda>x. userId x = u \<and> quizId x = qz \<and> roundId x = r) (responses d)
      in score_upsert d
           \<lparr>score_userId = u, score_quizId = qz, score_roundId = r,
            roundScore = sum_list (map pointsEarned rs),
            questionsAnswered = length rs,
            questionsCorrect = length (filter isCorrect rs)\<rparr>)"

text \<open>
  One line of the leaderboard. \<open>entry_user\<close> is the id of the joined user row (its
  \<open>username\<close> and \<open>role\<close> are display data and are not carried); \<open>entry_rounds\<close> is the
  per-round breakdown.
\<close>

record RoundBreakdown =
  breakdown_roundNumber :: nat
  breakdown_roundScore :: int
  breakdown_questionsAnswered :: nat
  breakdown_questionsCorrect :: nat

record LeaderboardEntry =
  entry_position :: nat
  entry_user :: ident
  entry_totalScore :: int
  totalQuestionsAnswered :: nat
  totalQuestionsCorrect :: nat
  entry_rounds :: "RoundBreakdown list"

text \<open>
  \<open>include: { round: { select: { roundNumber } } }\<close>: the relation is required, so the
  round row exists for every score row of a well-formed database; 0 stands for a
  dangling reference.
\<close>

definition score_roundNumber :: "db \<Rightarrow> Score \<Rightarrow> nat" where
  "score_roundNumber d s =
     (case find (\<lambda>r. round_id r = score_roundId s) (rounds d) of
        None \<Rightarrow> 0 | Some r \<Rightarrow> roundNumber r)"

text \<open>
  The body of \<open>userScores.forEach\<close>: \<open>userTotals\<close> is a JavaScript \<open>Map\<close>, which keeps
  its keys in insertion order, so it is an association list here, a new user going last.
\<close>

definition add_to_entry :: "db \<Rightarrow> Score \<Rightarrow> LeaderboardEntry \<Rightarrow> LeaderboardEntry" where
  "add_to_entry d s e =
     e\<lparr>entry_totalScore := entry_totalScore e + roundScore s,
       totalQuestionsAnswered := totalQuestionsAnswered e + questionsAnswered s,
       totalQuestionsCorrect := totalQuestionsCorrect e + questionsCorrect s,
       entry_rounds := entry_rounds e @
         [\<lparr>breakdown_roundNumber = score_roundNumber d s,
           breakdown_roundScore = roundScore s,
           breakdown_questionsAnswered = questionsAnswered s,
           breakdown_questionsCorrect = questionsCorrect s\<rparr>]\<rparr>"

definition accumulate :: "db \<Rightarrow> LeaderboardEntry list \<Rightarrow> Score \<Rightarrow> LeaderboardEntry list" where
  "accumulate d userTotals s =
     (let u = score_userId s;
          userTotals' =
            (if u \<in> set (map entry_user userTotals) then userTotals
             else userTotals @
               [\<lparr>entry_position = 0, entry_user = u, entry_totalScore = 0,
                 totalQuestionsAnswered = 0, totalQuestionsCorrect = 0, entry_rounds = []\<rparr>])
      in map (\<lambda>e. if entry_user e = u then add_to_entry d s e else e) userTotals')"

text \<open>
  \<open>Array.prototype.sort\<close> is stable, and so is \<open>sort_key\<close>; sorting by the negated total
  is the comparator \<open>b.totalScore - a.totalScore\<close>.
\<close>

definition getQuizLeaderboard :: "db \<Rightarrow> ident \<Rightarrow> error + LeaderboardEntry list" where
  "getQuizLeaderboard d qid =
     (case findQuizById d qid of
        Inl e \<Rightarrow> Inl e
      | Inr _ \<Rightarrow>
          (let userScores = filter (\<lambda>s. score_quizId s = qid) (scores d);
               userTotals = foldl (accumulate d) [] userScores;
               sorted = sort_key (\<lambda>e. - entry_totalScore e) userTotals
           in Inr (map (\<lambda>(index, entry).
                      entry\<lparr>entry_position := index + 1,
                            entry_rounds := sort_key breakdown_roundNumber (entry_rounds entry)\<rparr>)
                    (enumerate 0 sorted))))"

definition position_of :: "ident \<Rightarrow> LeaderboardEntry \<Rightarrow> QuizPosition" where
  "position_of qid entry =
     \<lparr>position_userId = entry_user entry, position_quizId = qid,
      position = entry_position entry, totalScore = entry_totalScore entry\<rparr>"

definition updateQuizPositions :: "db \<Rightarrow> ident \<Rightarrow> (error + LeaderboardEntry list) \<times> db" where
  "updateQuizPositions d qid =
     (case getQuizLeaderboard d qid of
        Inl e \<Rightarrow> (Inl e, d)
      | Inr leaderboard \<Rightarrow>
          (let d1 = d\<lparr>positions := filter (\<lambda>p. position_quizId p \<noteq> qid) (positions d)\<rparr>
           in case leaderboard of
                [] \<Rightarrow> (Inr leaderboard, d1)
              | first # _ \<Rightarrow>
                  (let d2 = d1\<lparr>positions := positions d1 @ map (position_of qid) leaderboard\<rparr>;
                       d3 = d2\<lparr>quizzes := map (\<lambda>q. if quiz_id q = qid
                                                      then q\<lparr>winnerId := Some (entry_user first)\<rparr>
                                                      else q) (quizzes d2)\<rparr>
                   in (Inr leaderboard, d3))))"

text \<open>
  \<open>prisma.response.create\<close>: \<open>selectedIndex\<close> and \<open>pointsEarned\<close> must fit their
  \<open>Int\<close> columns, and the relation columns \<open>userId\<close> and \<open>quizId\<close> must name
  existing rows (\<open>questionId\<close> does: the question was just read).
\<close>

definition submitResponse ::
  "db \<Rightarrow> ident \<Rightarrow> ident \<Rightarrow> int \<Rightarrow> ident \<Rightarrow> int \<Rightarrow> bool \<Rightarrow> (error + Response) \<times> db" where
  "submitResponse d u qn sel r points correct =
     (case find (\<lambda>q. question_id q = qn) (questions d) of
        None \<Rightarrow> (Inl (NotFoundException ''Question not found''), d)
      | Some question \<Rightarrow>
          (case find (\<lambda>x. userId x = u \<and> questionId x = qn) (responses d) of
             Some existingResponse \<Rightarrow>
               (Inl (ConflictException ''User has already answered this question''), d)
           | None \<Rightarrow>
               if \<not> (int4 sel \<and> int4 points)
               then (Inl (ValueOutOfRange ''Response''), d)
               else if \<not> (u \<in> set (map user_id (users d))
                      \<and> question_quizId question \<in> set (map quiz_id (quizzes d)))
               then (Inl (ForeignKeyViolation ''Response''), d)
               else
                 (let response = \<lparr>userId = u, quizId = question_quizId question, roundId = r,
                                  questionId = qn, selectedIndex = sel, isCorrect = correct,
                                  pointsEarned = points\<rparr>;
                      d1 = d\<lparr>responses := responses d @ [response]\<rparr>
                  in case calculateRoundScore d1 u (question_quizId question) r of
                       (Inl e, d2) \<Rightarrow> (Inl e, d2)
                     | (Inr _, d2) \<Rightarrow>
                         (case updateQuizPositions d2 (question_quizId question) of
                            (Inl e, d3) \<Rightarrow> (Inl e, d3)
                          | (Inr _, d3) \<Rightarrow> (Inr response, d3)))))"

section \<open>RedisService (src/redis/redis.service.ts)\<close>

text \<open>
  The cache behind \<open>cacheManager\<close>, one field per key pattern, indexed by the ids that
  are spliced into the key (ids are cuids and contain no \<open>:\<close>, so distinct patterns
  give distinct keys). A missing key reads as \<open>None\<close>, JavaScript's \<open>undefined\<close>. Expiry
  of entries depends on wall-clock time and is not part of the model.
\<close>

record Participant =
  participant_userId :: ident
  participant_orderIndex :: nat

record SelectedAnswer =
  selected_userId :: ident
  selected_selectedIndex :: int

record BonusState =
  originalUserId :: ident
  bonusUserId :: ident
  bonus_questionId :: ident
  isActive :: bool

record cache =
  quiz_questions :: "ident \<Rightarrow> Question list option"
  round_questions :: "ident \<times> ident \<Rightarrow> Question list option"
  participants :: "ident \<Rightarrow> Participant list option"
  active_participant :: "ident \<Rightarrow> ident option"
  current_question :: "ident \<times> ident \<Rightarrow> nat option"
  answered_questions :: "ident \<Rightarrow> ident list option"
  selected_answer :: "ident \<times> ident \<Rightarrow> SelectedAnswer option"
  cached_bonusState :: "ident \<Rightarrow> BonusState option"

record Validation =
  validation_isCorrect :: bool
  validation_correctAnswerIndex :: int

text \<open>
  \<open>validateAnswer\<close> also returns \<open>points: isCorrect ? question.points : 0\<close>; no caller
  reads it and question rows have no such column, so it is not carried.
\<close>

definition validateAnswer :: "cache \<Rightarrow> ident \<Rightarrow> ident \<Rightarrow> int \<Rightarrow> error + Validation" where
  "validateAnswer c qz qn sel =
     (case quiz_questions c qz of
        None \<Rightarrow> Inl (Error ''Questions not cached for this quiz'')
      | Some qs \<Rightarrow>
          (case find (\<lambda>q. question_id q = qn) qs of
             None \<Rightarrow> Inl (Error ''Question not found in cache'')
           | Some question \<Rightarrow>
               Inr \<lparr>validation_isCorrect = (sel = correctAnswerIndex question),
                    validation_correctAnswerIndex = correctAnswerIndex question\<rparr>))"

definition markQuestionAsAnswered :: "cache \<Rightarrow> ident \<Rightarrow> ident \<Rightarrow> cache" where
  "markQuestionAsAnswered c qz qn =
     (let answeredQuestions = (case answered_questions c qz of None \<Rightarrow> [] | Some xs \<Rightarrow> xs)
      in if qn \<in> set answeredQuestions then c
         else c\<lparr>answered_questions := (answered_questions c)(qz \<mapsto> answeredQuestions @ [qn])\<rparr>)"

section \<open>QuizGateway (src/quiz/quiz.gateway.ts)\<close>

datatype AnswerType = normal | bonus | original_return

record UserInfo =
  info_userId :: ident
  info_role :: UserRole
  info_quizId :: "ident option"
  info_username :: string

text \<open>Questions as sent to clients: the correct answer is dropped.\<close>

record ClientQuestion =
  client_id :: ident
  client_questionText :: string
  client_options :: "string list"
  client_questionNumber :: nat

definition clientQuestion :: "Question \<Rightarrow> ClientQuestion" where
  "clientQuestion q =
     \<lparr>client_id = question_id q, client_questionText = questionText q,
      client_options = options q, client_questionNumber = questionNumber q\<rparr>"

text \<open>The first question shown by \<open>roundStarted\<close>: id, text and options only.\<close>

record StartQuestion =
  start_id :: ident
  start_questionText :: string
  start_options :: "string list"

record ReadinessReport =
  report_roundId :: ident
  report_roundNumber :: nat
  report_quizType :: QuizType
  isReady :: bool
  canStart :: bool
  required :: nat
  available :: nat
  shortage :: nat
  overall_requiredQuestions :: nat
  overall_currentQuestions :: nat
  overall_shortfall :: nat
  previousRoundsCompleted :: bool
  incompletePreviousRounds :: "ident list"

text \<open>
  Where an emitted message goes: \<open>client.emit\<close>, \<open>server.to(room).emit\<close>,
  \<open>client.to(room).emit\<close>. Payload fields that are timestamps, random ids or display
  names are left out.
\<close>

datatype target = Client ident | Room ident | RoomExcept ident ident

datatype event =
    error_event string "string option"
  | quizJoined ident UserRole "Participant list option" bool
  | userJoined ident UserRole
  | participantOrderUpdated "Participant list"
  | simultaneousRoundStarted ident QuizType "(ident \<times> ClientQuestion list) list" "nat option" nat int
  | roundStarted ident QuizType StartQuestion ident "Participant list" "nat option" int
  | roundReadinessCheck ReadinessReport
  | messageReceived ident ident UserRole string
  | messageSent ident string
  | answerSubmitted ident int bool int int
  | questionSkipped int
  | simultaneousSessionEnded ident int
  | userCompletedRound ident int
  | answerAutoConfirmed ident ident int bool int int
  | answerSelected ident ident int
  | answerResult ident ident bool int AnswerType
  | leaderboardUpdate "LeaderboardEntry list"
  | roundCompleted ident
  | nextParticipant ident ClientQuestion nat

text \<open>
  The gateway's world: the database, the cache, its two in-memory maps, the messages
  emitted so far, and the \<open>setTimeout\<close> callbacks scheduled so far (each an
  \<open>autoAdvanceAfterBonus(quizId, roundId)\<close>).
\<close>

record state =
  database :: db
  redis :: cache
  bonusState :: "ident \<Rightarrow> BonusState option"
  connectedUsers :: "ident \<Rightarrow> UserInfo option"
  outbox :: "(target \<times> event) list"
  timers :: "(ident \<times> ident) list"

definition emit :: "target \<Rightarrow> event \<Rightarrow> state \<Rightarrow> state" where
  "emit t e st = st\<lparr>outbox := outbox st @ [(t, e)]\<rparr>"

definition message_of :: "error \<Rightarrow> string" where
  "message_of e =
     (case e of NotFoundException m \<Rightarrow> m | ConflictException m \<Rightarrow> m | Error m \<Rightarrow> m
      | TypeError m \<Rightarrow> m | ForeignKeyViolation m \<Rightarrow> m | ValueOutOfRange m \<Rightarrow> m)"

record AnswerOutcome =
  outcome_isCorrect :: bool
  outcome_points :: int
  outcome_correctAnswerIndex :: int
  outcome_answerType :: AnswerType

text \<open>
  Lines 1058 to 1081 of \<open>processAnswer\<close>: the points and the answer type, from the round
  (\<open>round?.quizType\<close>: a missing round takes the sequential branch), the quiz's bonus
  state, the answering user and the validation result.
\<close>

definition points_and_type :: "Round option \<Rightarrow> BonusState option \<Rightarrow> ident \<Rightarrow> bool \<Rightarrow> int \<times> AnswerType" where
  "points_and_type round bs u correct =
     (if map_option quizType round = Some simultaneous
      then (if correct then 5 else 0, normal)
      else (case bs of
              None \<Rightarrow> (if correct then 2 else 0, normal)
            | Some b \<Rightarrow>
                if isActive b \<and> bonusUserId b = u then (if correct then 1 else 0, bonus)
                else if \<not> isActive b \<and> originalUserId b = u
                then (if correct then 2 else 0, original_return)
                else (if correct then 2 else 0, normal)))"

definition processAnswer ::
  "state \<Rightarrow> ident \<Rightarrow> ident \<Rightarrow> ident \<Rightarrow> ident \<Rightarrow> int \<Rightarrow> (error + AnswerOutcome) \<times> state" where
  "processAnswer st qz rid u qn sel =
     (case validateAnswer (redis st) qz qn sel of
        Inl e \<Rightarrow> (Inl e, st)
      | Inr validation \<Rightarrow>
          (let round = find (\<lambda>r. round_id r = rid) (rounds (database st));
               (points, answerType) =
                  points_and_type round (bonusState st qz) u (validation_isCorrect validation);
               st1 = (if answerType = original_return
                      then st\<lparr>bonusState := (bonusState st)(qz := None),
                              redis := (redis st)\<lparr>cached_bonusState :=
                                          (cached_bonusState (redis st))(qz := None)\<rparr>\<rparr>
                      else st)
           in case round of
                None \<Rightarrow>
                  (Inl (TypeError (''Cannot read properties of null (reading '' @ [CHR 0x27]
                                   @ ''id'' @ [CHR 0x27] @ '')'')), st1)
              | Some rnd \<Rightarrow>
                  (case submitResponse (database st1) u qn sel (round_id rnd) points
                          (validation_isCorrect validation) of
                     (Inl e, d) \<Rightarrow> (Inl e, st1\<lparr>database := d\<rparr>)
                   | (Inr _, d) \<Rightarrow>
                       (let st2 = st1\<lparr>database := d\<rparr>;
                            st3 = (if answerType \<noteq> bonus
                                   then st2\<lparr>redis := markQuestionAsAnswered (redis st2) qz qn\<rparr>
                                   else st2);
                            st4 = emit (Room qz)
                                    (answerResult u qn (validation_isCorrect validation) points answerType)
                                    st3
                        in case getQuizLeaderboard (database st4) qz of
                             Inl e \<Rightarrow> (Inl e, st4)
                           | Inr leaderboard \<Rightarrow>
                               (let st5 = emit (Room qz) (leaderboardUpdate leaderboard) st4;
                                    st6 = (if answerType = original_return
                                           then st5\<lparr>timers := timers st5 @ [(qz, rid)]\<rparr>
                                           else st5)
                                in (Inr \<lparr>outcome_isCorrect = validation_isCorrect validation,
                                         outcome_points = points,
                                         outcome_correctAnswerIndex =
                                           validation_correctAnswerIndex validation,
                                         outcome_answerType = answerType\<rparr>, st6))))))"

text \<open>\<open>Array.prototype.findIndex\<close>: the first index whose element satisfies the test, or -1.\<close>

fun findIndex :: "('a \<Rightarrow> bool) \<Rightarrow> 'a list \<Rightarrow> int" where
  "findIndex P [] = -1"
| "findIndex P (x # xs) =
     (if P x then 0 else (let i = findIndex P xs in if i < 0 then -1 else i + 1))"

text \<open>
  \<open>prisma.round.update({ where: { id }, data: { isActive } })\<close> throws when no row has
  that id.
\<close>

definition round_update_isActive :: "db \<Rightarrow> ident \<Rightarrow> bool \<Rightarrow> error + db" where
  "round_update_isActive d rid b =
     (if rid \<in> set (map round_id (rounds d))
      then Inr (d\<lparr>rounds := map (\<lambda>r. if round_id r = rid then r\<lparr>round_isActive := b\<rparr> else r)
                               (rounds d)\<rparr>)
      else Inl (NotFoundException ''Record to update not found''))"

text \<open>
  \<open>(await redisService.getCurrentQuestionIndex(quizId, roundId)) || 0\<close>, as
  \<open>autoAdvanceAfterBonus\<close> reads the question index: a missing index counts as 0.
\<close>

definition to_number :: "nat option \<Rightarrow> nat" where
  "to_number v = (case v of None \<Rightarrow> 0 | Some k \<Rightarrow> k)"

text \<open>
  \<open>proceedToNext\<close> returns nothing and swallows every exception in its \<open>catch\<close>, so it
  is a state transformer; each branch that ends in the state reached so far is a
  \<open>TypeError\<close> caught there. With an empty order the next index is \<open>NaN\<close> (\<open>None\<close>
  here) and \<open>participantOrder[NaN]\<close> is \<open>undefined\<close>. \<open>proceedToNext\<close> reads the
  question index without a default: a missing index is \<open>undefined\<close>, incrementing it
  gives \<open>NaN\<close>, neither is greater than or equal to any length, and
  \<open>questions[undefined]\<close> is \<open>undefined\<close>; all of these are \<open>None\<close> here, and a
  stored non-number reads back as missing. The two list reads are in range: the index is
  a remainder modulo the length, and the question index was just compared with the number
  of questions.
\<close>

definition proceedToNext :: "state \<Rightarrow> ident \<Rightarrow> ident \<Rightarrow> bool \<Rightarrow> state" where
  "proceedToNext st qz rid wasCorrect =
     (case (participants (redis st) qz, active_participant (redis st) qz) of
        (Some participantOrder, Some activeUserId) \<Rightarrow>
          if activeUserId = [] then st
          else
            (let currentQuestionIndex = current_question (redis st) (qz, rid);
                 currentParticipantIndex =
                   findIndex (\<lambda>p. participant_userId p = activeUserId) participantOrder;
                 nextParticipantIndex =
                   (if participantOrder = [] then None
                    else Some (nat ((currentParticipantIndex + 1) mod int (length participantOrder))));
                 nextQuestionIndex =
                   (if nextParticipantIndex = Some 0
                    then map_option (\<lambda>k. k + 1) currentQuestionIndex
                    else currentQuestionIndex)
             in case round_questions (redis st) (qz, rid) of
                  None \<Rightarrow> st
                | Some roundQuestions \<Rightarrow>
                    if (case nextQuestionIndex of None \<Rightarrow> False
                        | Some k \<Rightarrow> k \<ge> length roundQuestions)
                    then (case round_update_isActive (database st) rid False of
                            Inl _ \<Rightarrow> st
                          | Inr d \<Rightarrow> emit (Room qz) (roundCompleted rid) (st\<lparr>database := d\<rparr>))
                    else
                      (case nextParticipantIndex of
                         None \<Rightarrow> st
                       | Some i \<Rightarrow>
                           (let next = participantOrder ! i;
                                st1 = st\<lparr>redis := (redis st)\<lparr>active_participant :=
                                        (active_participant (redis st))
                                          (qz \<mapsto> participant_userId next)\<rparr>\<rparr>;
                                st2 = st1\<lparr>redis := (redis st1)\<lparr>current_question :=
                                        (current_question (redis st1))((qz, rid) := nextQuestionIndex)\<rparr>\<rparr>
                            in case nextQuestionIndex of
                                 None \<Rightarrow> st2
                               | Some k \<Rightarrow>
                                   emit (Room qz)
                                     (nextParticipant (participant_userId next)
                                        (clientQuestion (roundQuestions ! k)) k)
                                     st2)))
      | _ \<Rightarrow> st)"

text \<open>
  The handlers. Each takes the socket id of the sending client and the payload, and
  returns the new state; a handler's \<open>catch\<close> turns an exception into an \<open>error\<close>
  message to that client, keeping whatever was written before the throw.
\<close>

definition handleSelectAnswer :: "state \<Rightarrow> ident \<Rightarrow> ident \<Rightarrow> ident \<Rightarrow> ident \<Rightarrow> int \<Rightarrow> state" where
  "handleSelectAnswer st client qz rid qn sel =
     (case connectedUsers st client of
        None \<Rightarrow> emit (Client client) (error_event ''Only contestants can select answers'' None) st
      | Some userInfo \<Rightarrow>
          if info_role userInfo \<noteq> CONTESTANT
          then emit (Client client) (error_event ''Only contestants can select answers'' None) st
          else if active_participant (redis st) qz \<noteq> Some (info_userId userInfo)
          then emit (Client client)
                 (error_event ''Only the active participant can select an answer'' None) st
          else
            emit (Room qz) (answerSelected (info_userId userInfo) qn sel)
              (st\<lparr>redis := (redis st)\<lparr>selected_answer := (selected_answer (redis st))
                   ((qz, qn) \<mapsto> \<lparr>selected_userId = info_userId userInfo,
                                  selected_selectedIndex = sel\<rparr>)\<rparr>\<rparr>))"

definition handleConfirmAnswer :: "state \<Rightarrow> ident \<Rightarrow> ident \<Rightarrow> ident \<Rightarrow> ident \<Rightarrow> state" where
  "handleConfirmAnswer st client qz rid qn =
     (case connectedUsers st client of
        None \<Rightarrow> emit (Client client) (error_event ''Only moderators can confirm answers'' None) st
      | Some userInfo \<Rightarrow>
          if info_role userInfo \<noteq> MODERATOR
          then emit (Client client) (error_event ''Only moderators can confirm answers'' None) st
          else
            (case selected_answer (redis st) (qz, qn) of
               None \<Rightarrow>
                 emit (Client client) (error_event ''No answer selected for this question'' None) st
             | Some selectedAnswer \<Rightarrow>
                 (case processAnswer st qz rid (selected_userId selectedAnswer) qn
                         (selected_selectedIndex selectedAnswer) of
                    (Inl e, st1) \<Rightarrow>
                      emit (Client client)
                        (error_event ''Failed to confirm answer'' (Some (message_of e))) st1
                  | (Inr result, st1) \<Rightarrow>
                      (let st2 = st1\<lparr>redis := (redis st1)\<lparr>selected_answer :=
                                   (selected_answer (redis st1))((qz, qn) := None)\<rparr>\<rparr>
                       in proceedToNext st2 qz rid (outcome_isCorrect result)))))"

definition handleAutoConfirmAnswer :: "state \<Rightarrow> ident \<Rightarrow> ident \<Rightarrow> ident \<Rightarrow> ident \<Rightarrow> int \<Rightarrow> state" where
  "handleAutoConfirmAnswer st client qz rid qn sel =
     (case connectedUsers st client of
        None \<Rightarrow> emit (Client client) (error_event ''Only moderators can auto-confirm answers'' None) st
      | Some userInfo \<Rightarrow>
          if info_role userInfo \<noteq> MODERATOR
          then emit (Client client) (error_event ''Only moderators can auto-confirm answers'' None) st
          else
            (case active_participant (redis st) qz of
               None \<Rightarrow> emit (Client client) (error_event ''No active participant found'' None) st
             | Some activeUserId \<Rightarrow>
                 if activeUserId = []
                 then emit (Client client) (error_event ''No active participant found'' None) st
                 else
                   (case processAnswer st qz rid activeUserId qn sel of
                      (Inl e, st1) \<Rightarrow>
                        emit (Client client)
                          (error_event ''Failed to auto-confirm answer'' (Some (message_of e))) st1
                    | (Inr result, st1) \<Rightarrow>
                        proceedToNext
                          (emit (Room qz)
                             (answerAutoConfirmed qn activeUserId sel (outcome_isCorrect result)
                                (outcome_points result) (outcome_correctAnswerIndex result))
                             st1)
                          qz rid (outcome_isCorrect result))))"

section \<open>QuestionsService (src/questions/questions.service.ts)\<close>

text \<open>
  JavaScript's \<open>a || b\<close> on an optional number: \<open>undefined\<close> and 0 are falsy.
\<close>

definition or_default :: "nat option \<Rightarrow> nat \<Rightarrow> nat" where
  "or_default v dflt = (case v of None \<Rightarrow> dflt | Some n \<Rightarrow> if n = 0 then dflt else n)"

definition mapRoundTypeToQuestionType :: "QuizType \<Rightarrow> QuestionType" where
  "mapRoundTypeToQuestionType roundType =
     (case roundType of
        yes_no \<Rightarrow> question_yes_no
      | multiple_choice \<Rightarrow> question_multiple_choice
      | simultaneous \<Rightarrow> question_multiple_choice)"

text \<open>
  \<open>findMany\<close> with \<open>orderBy: { questionNumber: 'asc' }\<close> and an optional \<open>take\<close>.
  \<open>(quizId, questionNumber)\<close> is unique, so the order of the result is determined.
  In the sequential branch \<open>...(questionsPerParticipant && { take: questionsPerParticipant })\<close>
  adds the \<open>take\<close> only for a truthy number. \<open>mapToResponseDto\<close> copies the columns.
\<close>

definition getQuestionsForRound ::
  "db \<Rightarrow> ident \<Rightarrow> QuizType \<Rightarrow> nat option \<Rightarrow> nat option \<Rightarrow> Question list" where
  "getQuestionsForRound d qz roundType participantCount perParticipant =
     (if roundType = simultaneous
      then (let totalQuestionsNeeded = or_default participantCount 1 * or_default perParticipant 3
            in take totalQuestionsNeeded
                 (sort_key questionNumber
                    (filter (\<lambda>q. question_quizId q = qz \<and> \<not> isAnswered q) (questions d))))
      else (let wanted = mapRoundTypeToQuestionType roundType;
                found = sort_key questionNumber
                          (filter (\<lambda>q. question_quizId q = qz \<and> questionType q = wanted
                                        \<and> \<not> isAnswered q) (questions d))
            in case perParticipant of
                 None \<Rightarrow> found
               | Some n \<Rightarrow> if n = 0 then found else take n found))"

record QuestionRequirements =
  requiredQuestions :: nat
  currentQuestions :: nat
  shortfall :: nat

text \<open>
  \<open>Math.ceil(n * 1.25)\<close> for a count \<open>n\<close>: the product is exact in double precision
  for every count that can occur, so the result is the integer ceiling of \<open>5n/4\<close>.
  \<open>Math.ceil(a / b)\<close> for counts likewise.
\<close>

definition ceil_125 :: "nat \<Rightarrow> nat" where
  "ceil_125 n = (5 * n + 3) div 4"

definition ceil_div :: "nat \<Rightarrow> nat \<Rightarrow> nat" where
  "ceil_div a b = (a + b - 1) div b"

definition contestants_of :: "db \<Rightarrow> ident \<Rightarrow> User list" where
  "contestants_of d qz = filter (\<lambda>u. user_quizId u = Some qz \<and> role u = CONTESTANT) (users d)"

text \<open>
  \<open>getQuestionRequirements\<close>: both branches of the loop body compute the same
  \<open>roundRequirement\<close>; the per-type split (\<open>Math.ceil(roundRequirement * 0.6)\<close> and
  \<open>* 0.4\<close>) is floating-point and is not carried, nothing here reads it.
\<close>

definition getQuestionRequirements :: "db \<Rightarrow> ident \<Rightarrow> error + QuestionRequirements" where
  "getQuestionRequirements d qz =
     (case find (\<lambda>q. quiz_id q = qz) (quizzes d) of
        None \<Rightarrow> Inl (NotFoundException ''Quiz not found'')
      | Some quiz \<Rightarrow>
          (let participantCount =
                 max (max (length (contestants_of d qz))
                          (length (filter (\<lambda>p. order_quizId p = qz) (participantOrders d)))) 1;
               totalRequired =
                 sum_list (map (\<lambda>round. ceil_125 (participantCount * questionsPerParticipant round))
                             (filter (\<lambda>r. round_quizId r = qz) (rounds d)));
               totalQuestions = length (filter (\<lambda>q. question_quizId q = qz) (questions d))
           in Inr \<lparr>requiredQuestions = totalRequired, currentQuestions = totalQuestions,
                   shortfall = totalRequired - totalQuestions\<rparr>))"

section \<open>QuizGateway: rounds, readiness and the remaining handlers\<close>

definition getParticipantCount :: "db \<Rightarrow> ident \<Rightarrow> nat" where
  "getParticipantCount d qz =
     (case find (\<lambda>q. quiz_id q = qz) (quizzes d) of
        None \<Rightarrow> 1
      | Some quiz \<Rightarrow>
          max (max (length (filter (\<lambda>p. order_quizId p = qz) (participantOrders d)))
                   (length (contestants_of d qz))) 1)"

text \<open>
  \<open>getDefaultParticipantOrder\<close>: the stored order by \<open>orderIndex\<close>, or, when none is
  stored, the quiz's contestants numbered in table order, which are then stored.
\<close>

definition getDefaultParticipantOrder :: "db \<Rightarrow> ident \<Rightarrow> Participant list \<times> db" where
  "getDefaultParticipantOrder d qz =
     (let stored = sort_key orderIndex (filter (\<lambda>p. order_quizId p = qz) (participantOrders d))
      in if stored = []
         then (let defaultOrder =
                     map (\<lambda>(index, user). \<lparr>participant_userId = user_id user,
                                            participant_orderIndex = index\<rparr>)
                       (enumerate 0 (contestants_of d qz))
               in (defaultOrder,
                   d\<lparr>participantOrders := participantOrders d @
                        map (\<lambda>p. \<lparr>order_quizId = qz, order_userId = participant_userId p,
                                   orderIndex = participant_orderIndex p\<rparr>) defaultOrder\<rparr>))
         else (map (\<lambda>p. \<lparr>participant_userId = order_userId p,
                          participant_orderIndex = orderIndex p\<rparr>) stored, d))"

text \<open>
  \<open>await redisService.getParticipantOrder(quizId) || await getDefaultParticipantOrder(quizId)\<close>:
  an array, even an empty one, is truthy.
\<close>

definition loadParticipantOrder :: "state \<Rightarrow> ident \<Rightarrow> Participant list \<times> state" where
  "loadParticipantOrder st qz =
     (case participants (redis st) qz of
        Some cached \<Rightarrow> (cached, st)
      | None \<Rightarrow> (case getDefaultParticipantOrder (database st) qz of
                   (order, d) \<Rightarrow> (order, st\<lparr>database := d\<rparr>)))"

text \<open>
  The questions of a round at its start: the cached list if there is one (an empty array
  is truthy and is kept), otherwise the list fetched from the question service, which is
  then cached.
\<close>

definition loadRoundQuestions :: "state \<Rightarrow> ident \<Rightarrow> Round \<Rightarrow> Question list \<times> state" where
  "loadRoundQuestions st qz round =
     (case round_questions (redis st) (qz, round_id round) of
        Some cached \<Rightarrow> (cached, st)
      | None \<Rightarrow>
          (let participantCount = getParticipantCount (database st) qz;
               fetched = getQuestionsForRound (database st) qz (quizType round)
                           (Some participantCount) (Some (questionsPerParticipant round))
           in (fetched,
               st\<lparr>redis := (redis st)\<lparr>round_questions :=
                    (round_questions (redis st))((qz, round_id round) \<mapsto> fetched)\<rparr>\<rparr>)))"

text \<open>\<open>Array.prototype.slice(start, end)\<close> on indices that are counts.\<close>

definition slice :: "'a list \<Rightarrow> nat \<Rightarrow> nat \<Rightarrow> 'a list" where
  "slice xs startIndex endIndex = take (endIndex - startIndex) (drop startIndex xs)"

text \<open>
  \<open>obj[key] = value\<close> on a plain object: an existing key keeps its place and gets the
  new value, a new key goes last.
\<close>

fun object_set :: "'k \<Rightarrow> 'v \<Rightarrow> ('k \<times> 'v) list \<Rightarrow> ('k \<times> 'v) list" where
  "object_set k v [] = [(k, v)]"
| "object_set k v ((k', v') # kvs) =
     (if k' = k then (k, v) # kvs else (k', v') # object_set k v kvs)"

text \<open>The distribution loop of \<open>handleStartRound\<close>, \<open>i\<close> running over the participant order.\<close>

definition distributeQuestions ::
  "Participant list \<Rightarrow> nat \<Rightarrow> Question list \<Rightarrow> (ident \<times> ClientQuestion list) list" where
  "distributeQuestions participantOrder perParticipant pool =
     foldl (\<lambda>participantQuestions i.
              (let startIndex = i * perParticipant;
                   endIndex = startIndex + perParticipant;
                   userQuestions = slice pool startIndex endIndex
               in object_set (participant_userId (participantOrder ! i))
                    (map clientQuestion userQuestions) participantQuestions))
       [] [0..<length participantOrder]"

definition startQuestion :: "Question \<Rightarrow> StartQuestion" where
  "startQuestion q =
     \<lparr>start_id = question_id q, start_questionText = questionText q, start_options = options q\<rparr>"

definition handleStartRound :: "state \<Rightarrow> ident \<Rightarrow> ident \<Rightarrow> ident \<Rightarrow> state" where
  "handleStartRound st client qz rid =
     (case connectedUsers st client of
        None \<Rightarrow> emit (Client client) (error_event ''Only moderators can start rounds'' None) st
      | Some userInfo \<Rightarrow>
          if info_role userInfo \<noteq> MODERATOR
          then emit (Client client) (error_event ''Only moderators can start rounds'' None) st
          else
            (case find (\<lambda>r. round_id r = rid) (rounds (database st)) of
               None \<Rightarrow> emit (Client client) (error_event ''Round not found'' None) st
             | Some round \<Rightarrow>
                 if round_quizId round \<noteq> qz
                 then emit (Client client) (error_event ''Round not found'' None) st
                 else
                   (case round_update_isActive (database st) rid True of
                      Inl e \<Rightarrow>
                        emit (Client client)
                          (error_event ''Failed to start round'' (Some (message_of e))) st
                    | Inr d \<Rightarrow>
                        (case loadRoundQuestions (st\<lparr>database := d\<rparr>) qz round of
                           (pool, st1) \<Rightarrow>
                             (case pool of
                                [] \<Rightarrow>
                                  emit (Client client)
                                    (error_event ''No questions available for this round'' None) st1
                              | firstQuestion # _ \<Rightarrow>
                                  (let st2 = st1\<lparr>redis := (redis st1)\<lparr>current_question :=
                                               (current_question (redis st1))((qz, rid) \<mapsto> 0)\<rparr>\<rparr>
                                   in if quizType round = simultaneous
                                      then
                                        (let perParticipant =
                                               or_default (Some (questionsPerParticipant round)) 3
                                         in case loadParticipantOrder st2 qz of
                                              (participantOrder, st3) \<Rightarrow>
                                                if participantOrder = []
                                                then emit (Client client)
                                                       (error_event
                                                          ''No participants found for this quiz''
                                                          None) st3
                                                else emit (Room qz)
                                                       (simultaneousRoundStarted rid (quizType round)
                                                          (distributeQuestions participantOrder
                                                             perParticipant pool)
                                                          (timePerQuestion round) perParticipant 5)
                                                       st3)
                                      else
                                        (case loadParticipantOrder st2 qz of
                                           (participantOrder, st3) \<Rightarrow>
                                             (case participantOrder of
                                                [] \<Rightarrow>
                                                  emit (Client client)
                                                    (error_event
                                                       ''No participants found for this quiz''
                                                       None) st3
                                              | firstParticipant # _ \<Rightarrow>
                                                  emit (Room qz)
                                                    (roundStarted rid (quizType round)
                                                       (startQuestion firstQuestion)
                                                       (participant_userId firstParticipant)
                                                       participantOrder (timePerQuestion round) 1)
                                                    (st3\<lparr>redis := (redis st3)\<lparr>active_participant :=
                                                           (active_participant (redis st3))
                                                             (qz \<mapsto> participant_userId
                                                                      firstParticipant)\<rparr>\<rparr>)))))))))"

text \<open>
  \<open>handleCheckRoundReadiness\<close>. The round counted in the divisor belongs to the quiz,
  so the divisor is at least 1. \<open>incompletePreviousRounds\<close> is the filter
  \<open>r => !r.isActive && round.roundNumber > 1\<close> over the rounds of the quiz with a smaller
  round number, in round order.
\<close>

definition handleCheckRoundReadiness :: "state \<Rightarrow> ident \<Rightarrow> ident \<Rightarrow> ident \<Rightarrow> state" where
  "handleCheckRoundReadiness st client qz rid =
     (case connectedUsers st client of
        None \<Rightarrow>
          emit (Client client) (error_event ''Only moderators can check round readiness'' None) st
      | Some userInfo \<Rightarrow>
          if info_role userInfo \<noteq> MODERATOR
          then emit (Client client)
                 (error_event ''Only moderators can check round readiness'' None) st
          else
            (case find (\<lambda>r. round_id r = rid) (rounds (database st)) of
               None \<Rightarrow> emit (Client client) (error_event ''Round not found'' None) st
             | Some round \<Rightarrow>
                 if round_quizId round \<noteq> qz
                 then emit (Client client) (error_event ''Round not found'' None) st
                 else
                   (case getQuestionRequirements (database st) qz of
                      Inl e \<Rightarrow>
                        emit (Client client)
                          (error_event ''Failed to check round readiness'' (Some (message_of e))) st
                    | Inr questionRequirements \<Rightarrow>
                        (let availableQuestions =
                               getQuestionsForRound (database st) qz (quizType round) None None;
                             requiredForThisRound =
                               ceil_div (requiredQuestions questionRequirements)
                                 (length (filter (\<lambda>r. round_quizId r = qz) (rounds (database st))));
                             ready = (length availableQuestions \<ge> requiredForThisRound);
                             previousRounds =
                               sort_key roundNumber
                                 (filter (\<lambda>r. round_quizId r = qz \<and> roundNumber r < roundNumber round)
                                    (rounds (database st)));
                             incomplete =
                               filter (\<lambda>r. \<not> round_isActive r \<and> roundNumber round > 1) previousRounds
                         in emit (Client client)
                              (roundReadinessCheck
                                 \<lparr>report_roundId = rid,
                                  report_roundNumber = roundNumber round,
                                  report_quizType = quizType round,
                                  isReady = ready,
                                  canStart = (ready \<and> length incomplete = 0),
                                  required = requiredForThisRound,
                                  available = length availableQuestions,
                                  shortage = requiredForThisRound - length availableQuestions,
                                  overall_requiredQuestions = requiredQuestions questionRequirements,
                                  overall_currentQuestions = currentQuestions questionRequirements,
                                  overall_shortfall = shortfall questionRequirements,
                                  previousRoundsCompleted = (length incomplete = 0),
                                  incompletePreviousRounds = map round_id incomplete\<rparr>)
                              st))))"

text \<open>
  \<open>handleJoinQuiz\<close> reads the authenticated user from \<open>client.data.user\<close>, which
  \<open>handleConnection\<close> sets together with the \<open>connectedUsers\<close> entry of the socket.
\<close>

definition handleJoinQuiz :: "state \<Rightarrow> ident \<Rightarrow> ident \<Rightarrow> state" where
  "handleJoinQuiz st client qz =
     (case connectedUsers st client of
        None \<Rightarrow> emit (Client client) (error_event ''Authentication required'' None) st
      | Some authenticatedUser \<Rightarrow>
          if qz = []
          then emit (Client client) (error_event ''Invalid request. QuizId is required.'' None) st
          else
            (case find (\<lambda>u. user_id u = info_userId authenticatedUser) (users (database st)) of
               None \<Rightarrow> emit (Client client) (error_event ''User not found'' None) st
             | Some user \<Rightarrow>
                 (case find (\<lambda>q. quiz_id q = qz) (quizzes (database st)) of
                    None \<Rightarrow> emit (Client client) (error_event ''Quiz not found'' None) st
                  | Some quiz \<Rightarrow>
                      if role user = CONTESTANT \<and> user_quizId user \<noteq> Some qz
                      then emit (Client client) (error_event ''Not authorized for this quiz'' None) st
                      else
                        (let st1 = st\<lparr>connectedUsers := (connectedUsers st)(client \<mapsto>
                                        \<lparr>info_userId = user_id user, info_role = role user,
                                         info_quizId = Some qz, info_username = username user\<rparr>)\<rparr>
                         in case loadParticipantOrder st1 qz of
                              (participantOrder, st2) \<Rightarrow>
                                emit (RoomExcept qz client) (userJoined (user_id user) (role user))
                                  (emit (Client client)
                                     (quizJoined qz (role user)
                                        (if role user \<noteq> AUDIENCE then Some participantOrder else None)
                                        (quiz_isActive quiz))
                                     st2)))))"

text \<open>
  \<open>handleUpdateParticipantOrder\<close>. The transaction replaces the quiz's stored order by
  the payload; it fails, and is rolled back, when the payload breaks a constraint of the
  table: a user or an index twice, or a user or quiz that does not exist.
\<close>

definition handleUpdateParticipantOrder :: "state \<Rightarrow> ident \<Rightarrow> ident \<Rightarrow> Participant list \<Rightarrow> state" where
  "handleUpdateParticipantOrder st client qz newOrder =
     (case connectedUsers st client of
        None \<Rightarrow>
          emit (Client client) (error_event ''Only moderators can update participant order'' None) st
      | Some userInfo \<Rightarrow>
          if info_role userInfo \<noteq> MODERATOR
          then emit (Client client)
                 (error_event ''Only moderators can update participant order'' None) st
          else if list_ex (\<lambda>r. round_quizId r = qz \<and> round_isActive r) (rounds (database st))
          then emit (Client client)
                 (error_event ''Cannot change order after round has started'' None) st
          else if \<not> (distinct (map participant_userId newOrder)
                      \<and> distinct (map participant_orderIndex newOrder)
                      \<and> list_all (\<lambda>p. participant_userId p \<in> set (map user_id (users (database st))))
                           newOrder
                      \<and> (newOrder = [] \<or> qz \<in> set (map quiz_id (quizzes (database st)))))
          then emit (Client client)
                 (error_event ''Failed to update participant order''
                    (Some (message_of (ForeignKeyViolation ''ParticipantOrder'')))) st
          else
            emit (Room qz) (participantOrderUpdated newOrder)
              (st\<lparr>database := (database st)\<lparr>participantOrders :=
                     filter (\<lambda>p. order_quizId p \<noteq> qz) (participantOrders (database st)) @
                     map (\<lambda>p. \<lparr>order_quizId = qz, order_userId = participant_userId p,
                                orderIndex = participant_orderIndex p\<rparr>) newOrder\<rparr>,
                  redis := (redis st)\<lparr>participants := (participants (redis st))(qz \<mapsto> newOrder)\<rparr>\<rparr>))"

definition handleSendMessage :: "state \<Rightarrow> ident \<Rightarrow> ident \<Rightarrow> string \<Rightarrow> state" where
  "handleSendMessage st client qz message =
     (case connectedUsers st client of
        None \<Rightarrow> emit (Client client) (error_event ''Authentication required'' None) st
      | Some userInfo \<Rightarrow>
          if qz = [] \<or> message = []
          then emit (Client client)
                 (error_event ''Invalid message format. QuizId and message are required.'' None) st
          else if info_quizId userInfo \<noteq> Some qz
          then emit (Client client)
                 (error_event ''You must join the quiz room before sending messages'' None) st
          else
            emit (Client client) (messageSent qz message)
              (emit (Room qz)
                 (messageReceived qz (info_userId userInfo) (info_role userInfo) message) st))"

definition handleSubmitSimultaneousAnswer ::
  "state \<Rightarrow> ident \<Rightarrow> ident \<Rightarrow> ident \<Rightarrow> ident \<Rightarrow> int \<Rightarrow> int \<Rightarrow> state" where
  "handleSubmitSimultaneousAnswer st client qz rid qn sel number =
     (case connectedUsers st client of
        None \<Rightarrow> emit (Client client) (error_event ''Only contestants can submit answers'' None) st
      | Some userInfo \<Rightarrow>
          if info_role userInfo \<noteq> CONTESTANT
          then emit (Client client) (error_event ''Only contestants can submit answers'' None) st
          else
            (case processAnswer st qz rid (info_userId userInfo) qn sel of
               (Inl e, st1) \<Rightarrow>
                 emit (Client client)
                   (error_event ''Failed to submit answer'' (Some (message_of e))) st1
             | (Inr result, st1) \<Rightarrow>
                 emit (Client client)
                   (answerSubmitted qn number (outcome_isCorrect result) (outcome_points result)
                      (outcome_correctAnswerIndex result))
                   st1))"

definition handleSkipQuestion :: "state \<Rightarrow> ident \<Rightarrow> ident \<Rightarrow> ident \<Rightarrow> int \<Rightarrow> state" where
  "handleSkipQuestion st client qz rid number =
     (case connectedUsers st client of
        None \<Rightarrow> emit (Client client) (error_event ''Only contestants can skip questions'' None) st
      | Some userInfo \<Rightarrow>
          if info_role userInfo \<noteq> CONTESTANT
          then emit (Client client) (error_event ''Only contestants can skip questions'' None) st
          else emit (Client client) (questionSkipped number) st)"

definition calculateUserRoundScore :: "db \<Rightarrow> ident \<Rightarrow> ident \<Rightarrow> ident \<Rightarrow> int" where
  "calculateUserRoundScore d qz rid u =
     sum_list (map pointsEarned
                 (filter (\<lambda>x. quizId x = qz \<and> roundId x = rid \<and> userId x = u) (responses d)))"

definition handleEndSimultaneousSession :: "state \<Rightarrow> ident \<Rightarrow> ident \<Rightarrow> ident \<Rightarrow> state" where
  "handleEndSimultaneousSession st client qz rid =
     (case connectedUsers st client of
        None \<Rightarrow> emit (Client client) (error_event ''Only contestants can end sessions'' None) st
      | Some userInfo \<Rightarrow>
          if info_role userInfo \<noteq> CONTESTANT
          then emit (Client client) (error_event ''Only contestants can end sessions'' None) st
          else
            (let finalScore = calculateUserRoundScore (database st) qz rid (info_userId userInfo)
             in emit (RoomExcept qz client) (userCompletedRound (info_userId userInfo) finalScore)
                  (emit (Client client) (simultaneousSessionEnded rid finalScore) st)))"

text \<open>
  \<open>autoAdvanceAfterBonus\<close>, the callback that \<open>processAnswer\<close> schedules after an
  original-return answer. It acts only on a bonus state that is present and inactive,
  and then advances the turn as \<open>proceedToNext\<close> does, reading a missing question index
  as 0 (\<open>|| 0\<close>) and comparing user ids with a possibly missing active participant.
\<close>

definition autoAdvanceAfterBonus :: "state \<Rightarrow> ident \<Rightarrow> ident \<Rightarrow> state" where
  "autoAdvanceAfterBonus st qz rid =
     (case bonusState st qz of
        None \<Rightarrow> st
      | Some b \<Rightarrow>
          if isActive b then st
          else
            (case participants (redis st) qz of
               None \<Rightarrow> st
             | Some participantOrder \<Rightarrow>
                 (let currentActiveUserId = active_participant (redis st) qz;
                      currentQuestionIndex = to_number (current_question (redis st) (qz, rid));
                      currentParticipantIndex =
                        findIndex (\<lambda>p. Some (participant_userId p) = currentActiveUserId)
                          participantOrder;
                      nextParticipantIndex =
                        (if participantOrder = [] then None
                         else Some (nat ((currentParticipantIndex + 1)
                                           mod int (length participantOrder))));
                      nextQuestionIndex =
                        (if nextParticipantIndex = Some 0 then currentQuestionIndex + 1
                         else currentQuestionIndex)
                  in case round_questions (redis st) (qz, rid) of
                       None \<Rightarrow> st
                     | Some roundQuestions \<Rightarrow>
                         if nextQuestionIndex \<ge> length roundQuestions
                         then (case round_update_isActive (database st) rid False of
                                 Inl _ \<Rightarrow> st
                               | Inr d \<Rightarrow> emit (Room qz) (roundCompleted rid) (st\<lparr>database := d\<rparr>))
                         else
                           (case nextParticipantIndex of
                              None \<Rightarrow> st
                            | Some i \<Rightarrow>
                                (let next = participantOrder ! i
                                 in emit (Room qz)
                                      (nextParticipant (participant_userId next)
                                         (clientQuestion (roundQuestions ! nextQuestionIndex))
                                         nextQuestionIndex)
                                      (st\<lparr>redis := (redis st)
                                           \<lparr>active_participant := (active_participant (redis st))
                                              (qz \<mapsto> participant_userId next),
                                            current_question := (current_question (redis st))
                                              ((qz, rid) \<mapsto> nextQuestionIndex)\<rparr>\<rparr>))))))"

text \<open>
  Everything the gateway reacts to once a socket is connected: the eleven subscribed
  messages, each with the socket id of its sender, and the firing of a scheduled timer.
  (\<open>handleConnection\<close> and \<open>handleDisconnect\<close> only maintain \<open>connectedUsers\<close>.)
\<close>

datatype command =
    joinQuiz ident ident
  | updateParticipantOrder ident ident "Participant list"
  | startRound ident ident ident
  | checkRoundReadiness ident ident ident
  | sendMessage ident ident string
  | submitSimultaneousAnswer ident ident ident ident int int
  | skipQuestion ident ident ident int
  | endSimultaneousSession ident ident ident
  | autoConfirmAnswer ident ident ident ident int
  | selectAnswer ident ident ident ident int
  | confirmAnswer ident ident ident ident
  | timerFired ident ident

fun handle :: "state \<Rightarrow> command \<Rightarrow> state" where
  "handle st (joinQuiz client qz) = handleJoinQuiz st client qz"
| "handle st (updateParticipantOrder client qz newOrder) =
     handleUpdateParticipantOrder st client qz newOrder"
| "handle st (startRound client qz rid) = handleStartRound st client qz rid"
| "handle st (checkRoundReadiness client qz rid) = handleCheckRoundReadiness st client qz rid"
| "handle st (sendMessage client qz message) = handleSendMessage st client qz message"
| "handle st (submitSimultaneousAnswer client qz rid qn sel number) =
     handleSubmitSimultaneousAnswer st client qz rid qn sel number"
| "handle st (skipQuestion client qz rid number) = handleSkipQuestion st client qz rid number"
| "handle st (endSimultaneousSession client qz rid) = handleEndSimultaneousSession st client qz rid"
| "handle st (autoConfirmAnswer client qz rid qn sel) =
     handleAutoConfirmAnswer st client qz rid qn sel"
| "handle st (selectAnswer client qz rid qn sel) = handleSelectAnswer st client qz rid qn sel"
| "handle st (confirmAnswer client qz rid qn) = handleConfirmAnswer st client qz rid qn"
| "handle st (timerFired qz rid) = autoAdvanceAfterBonus st qz rid"

section \<open>The specification's scoring table\<close>

text \<open>
  The table \<open>pointsFor(mode, answerKind, isCorrect)\<close> of the specification, row by row.
  It has no row for a Bonus or OriginalReturn answer in simultaneous mode. The two
  sequential quiz types share the Sequential rows.
\<close>

datatype Mode = Simultaneous | Sequential

definition mode_of :: "QuizType \<Rightarrow> Mode" where
  "mode_of t = (case t of simultaneous \<Rightarrow> Simultaneous | multiple_choice \<Rightarrow> Sequential | yes_no \<Rightarrow> Sequential)"

fun pointsFor :: "Mode \<Rightarrow> AnswerType \<Rightarrow> bool \<Rightarrow> int option" where
  "pointsFor Simultaneous normal True = Some 5"
| "pointsFor Simultaneous normal False = Some 0"
| "pointsFor Sequential normal True = Some 2"
| "pointsFor Sequential normal False = Some 0"
| "pointsFor Sequential bonus True = Some 1"
| "pointsFor Sequential bonus False = Some 0"
| "pointsFor Sequential original_return True = Some 2"
| "pointsFor Sequential original_return False = Some 0"
| "pointsFor Simultaneous bonus _ = None"
| "pointsFor Simultaneous original_return _ = None"

text \<open>The pair that the schema's \<open>@@unique([userId, questionId])\<close> constrains.\<close>

definition response_key :: "Response \<Rightarrow> ident \<times> ident" where
  "response_key x = (userId x, questionId x)"

section \<open>A running example\<close>

text \<open>
  One quiz with a sequential first round in progress and a simultaneous second round
  not yet started, two contestants in the order alice, bob, a moderator, and six
  unanswered questions of which the first two are loaded for round one.
\<close>

definition ex_quiz :: Quiz where
  "ex_quiz = \<lparr>quiz_id = ''quiz1'', quiz_name = ''Finals'', quiz_isActive = True, winnerId = None\<rparr>"

definition ex_round :: "ident \<Rightarrow> nat \<Rightarrow> QuizType \<Rightarrow> bool \<Rightarrow> Round" where
  "ex_round rid n t a =
     \<lparr>round_id = rid, round_quizId = ''quiz1'', roundNumber = n, quizType = t,
      timePerQuestion = Some 30, questionsPerParticipant = 2, round_isActive = a\<rparr>"

definition ex_question :: "ident \<Rightarrow> nat \<Rightarrow> QuestionType \<Rightarrow> Question" where
  "ex_question qn n t =
     \<lparr>question_id = qn, question_quizId = ''quiz1'', questionNumber = n,
      questionText = ''?'', questionType = t, options = [''Yes'', ''No''],
      correctAnswerIndex = 1, isAnswered = False\<rparr>"

definition ex_user :: "ident \<Rightarrow> UserRole \<Rightarrow> User" where
  "ex_user u r = \<lparr>user_id = u, username = u, role = r, user_quizId = Some ''quiz1''\<rparr>"

definition ex_db :: db where
  "ex_db =
     \<lparr>quizzes = [ex_quiz],
      rounds = [ex_round ''r1'' 1 multiple_choice True, ex_round ''r2'' 2 simultaneous False],
      questions = [ex_question ''q1'' 1 question_multiple_choice,
                   ex_question ''q2'' 2 question_multiple_choice,
                   ex_question ''q3'' 3 question_yes_no,
                   ex_question ''q4'' 4 question_multiple_choice,
                   ex_question ''q5'' 5 question_multiple_choice,
                   ex_question ''q6'' 6 question_multiple_choice],
      users = [ex_user ''alice'' CONTESTANT, ex_user ''bob'' CONTESTANT, ex_user ''mod'' MODERATOR],
      responses = [], scores = [], positions = [],
      participantOrders = [\<lparr>order_quizId = ''quiz1'', order_userId = ''alice'', orderIndex = 0\<rparr>,
                           \<lparr>order_quizId = ''quiz1'', order_userId = ''bob'', orderIndex = 1\<rparr>]\<rparr>"

definition ex_cache :: cache where
  "ex_cache =
     \<lparr>quiz_questions = Map.empty(''quiz1'' \<mapsto> questions ex_db),
      round_questions = Map.empty((''quiz1'', ''r1'') \<mapsto> take 2 (questions ex_db)),
      participants = Map.empty(''quiz1'' \<mapsto>
         [\<lparr>participant_userId = ''alice'', participant_orderIndex = 0\<rparr>,
          \<lparr>participant_userId = ''bob'', participant_orderIndex = 1\<rparr>]),
      active_participant = Map.empty(''quiz1'' \<mapsto> ''alice''),
      current_question = Map.empty((''quiz1'', ''r1'') \<mapsto> 0),
      answered_questions = Map.empty,
      selected_answer = Map.empty,
      cached_bonusState = Map.empty\<rparr>"

definition ex_info :: "ident \<Rightarrow> UserRole \<Rightarrow> UserInfo" where
  "ex_info u r = \<lparr>info_userId = u, info_role = r, info_quizId = Some ''quiz1'', info_username = u\<rparr>"

definition ex_state :: state where
  "ex_state =
     \<lparr>database = ex_db, redis = ex_cache, bonusState = Map.empty,
      connectedUsers = Map.empty(''s_mod'' \<mapsto> ex_info ''mod'' MODERATOR,
                                 ''s_alice'' \<mapsto> ex_info ''alice'' CONTESTANT,
                                 ''s_bob'' \<mapsto> ex_info ''bob'' CONTESTANT),
      outbox = [], timers = []\<rparr>"

text \<open>The database after alice's first, correct, answer to question one has been submitted.\<close>

definition ex_db1 :: db where
  "ex_db1 = snd (submitResponse ex_db ''alice'' ''q1'' 1 ''r1'' 2 True)"

text \<open>
  Alice selects the correct option of question one, the moderator confirms it, and then
  an auto-confirm for the same question and option arrives.
\<close>

definition ex_selected :: state where
  "ex_selected = handleSelectAnswer ex_state ''s_alice'' ''quiz1'' ''r1'' ''q1'' 1"

definition ex_confirmed :: state where
  "ex_confirmed = handleConfirmAnswer ex_selected ''s_mod'' ''quiz1'' ''r1'' ''q1''"

definition ex_auto_confirmed :: state where
  "ex_auto_confirmed = handleAutoConfirmAnswer ex_confirmed ''s_mod'' ''quiz1'' ''r1'' ''q1'' 1"

text \<open>The last turn of round one: bob is active on the second and last loaded question.\<close>

definition ex_last_turn :: state where
  "ex_last_turn =
     ex_state\<lparr>redis := ex_cache\<lparr>active_participant := Map.empty(''quiz1'' \<mapsto> ''bob''),
                                current_question := Map.empty((''quiz1'', ''r1'') \<mapsto> 1)\<rparr>\<rparr>"

text \<open>Alice selects the wrong option of question one and the moderator confirms it.\<close>

definition ex_wrong_confirmed :: state where
  "ex_wrong_confirmed =
     handleConfirmAnswer (handleSelectAnswer ex_state ''s_alice'' ''quiz1'' ''r1'' ''q1'' 0)
       ''s_mod'' ''quiz1'' ''r1'' ''q1''"

text \<open>
  A bonus in progress: alice answered question one, bob has been given the bonus attempt.
\<close>

definition ex_bonus :: state where
  "ex_bonus =
     ex_state\<lparr>bonusState := Map.empty(''quiz1'' \<mapsto>
        \<lparr>originalUserId = ''alice'', bonusUserId = ''bob'', bonus_questionId = ''q1'',
         isActive = True\<rparr>)\<rparr>"

text \<open>
  Two sequential rounds, the second not started, with round one either completed (its
  \<open>isActive\<close> flag reset by the completion branch of \<open>proceedToNext\<close>) or still running.
\<close>

definition ex_round1_done :: state where
  "ex_round1_done =
     ex_state\<lparr>database := ex_db\<lparr>rounds := [ex_round ''r1'' 1 multiple_choice False,
                                              ex_round ''r2'' 2 multiple_choice False]\<rparr>\<rparr>"

definition ex_round1_running :: state where
  "ex_round1_running =
     ex_state\<lparr>database := ex_db\<lparr>rounds := [ex_round ''r1'' 1 multiple_choice True,
                                              ex_round ''r2'' 2 multiple_choice False]\<rparr>\<rparr>"

text \<open>A single unanswered question in the database and nothing cached for the round.\<close>

definition ex_short :: state where
  "ex_short =
     ex_state\<lparr>database := ex_db\<lparr>questions := [ex_question ''q1'' 1 question_multiple_choice],
                                   rounds := [ex_round ''r1'' 1 multiple_choice False]\<rparr>,
              redis := ex_cache\<lparr>round_questions := Map.empty\<rparr>\<rparr>"

definition ex_order :: "Participant list" where
  "ex_order = [\<lparr>participant_userId = ''alice'', participant_orderIndex = 0\<rparr>,
               \<lparr>participant_userId = ''bob'', participant_orderIndex = 1\<rparr>]"

text \<open>
  A fresh session on the default order: the quiz's questions are cached, nothing else is,
  no round is active, and the stored participant order is alice, bob. The moderator
  starts round one; alice selects the correct option of question one; then either the
  moderator confirms it, or the answer is auto-confirmed.
\<close>

definition ex_fresh :: state where
  "ex_fresh =
     ex_state\<lparr>database := ex_db\<lparr>rounds := [ex_round ''r1'' 1 multiple_choice False,
                                              ex_round ''r2'' 2 simultaneous False]\<rparr>,
              redis := \<lparr>quiz_questions = Map.empty(''quiz1'' \<mapsto> questions ex_db),
                        round_questions = Map.empty, participants = Map.empty,
                        active_participant = Map.empty, current_question = Map.empty,
                        answered_questions = Map.empty, selected_answer = Map.empty,
                        cached_bonusState = Map.empty\<rparr>\<rparr>"

definition ex_started :: state where
  "ex_started = handleStartRound ex_fresh ''s_mod'' ''quiz1'' ''r1''"

definition ex_started_confirmed :: state where
  "ex_started_confirmed =
     handleConfirmAnswer (handleSelectAnswer ex_started ''s_alice'' ''quiz1'' ''r1'' ''q1'' 1)
       ''s_mod'' ''quiz1'' ''r1'' ''q1''"

definition ex_started_auto_confirmed :: state where
  "ex_started_auto_confirmed =
     handleAutoConfirmAnswer (handleSelectAnswer ex_started ''s_alice'' ''quiz1'' ''r1'' ''q1'' 1)
       ''s_mod'' ''quiz1'' ''r1'' ''q1'' 1"

section \<open>Auxiliary definitions\<close>


section \<open>Facts about the service layer\<close>

lemmas ex_defs = ex_quiz_def ex_round_def ex_question_def ex_user_def ex_db_def ex_cache_def
  ex_info_def ex_state_def

lemmas model_defs = processAnswer_def validateAnswer_def points_and_type_def submitResponse_def
  calculateRoundScore_def score_upsert_def score_matches_def updateQuizPositions_def
  getQuizLeaderboard_def findQuizById_def accumulate_def add_to_entry_def score_roundNumber_def
  position_of_def markQuestionAsAnswered_def emit_def int4_def Let_def

lemmas gateway_defs = handleSelectAnswer_def handleConfirmAnswer_def
  proceedToNext_def round_update_isActive_def to_number_def clientQuestion_def message_of_def

lemmas start_defs = handleStartRound_def loadRoundQuestions_def
  loadParticipantOrder_def getDefaultParticipantOrder_def getParticipantCount_def
  getQuestionsForRound_def contestants_of_def or_default_def
  mapRoundTypeToQuestionType_def startQuestion_def
  round_update_isActive_def emit_def Let_def

lemma score_upsert_frame:
  "responses (snd (score_upsert d row)) = responses d"
  "questions (snd (score_upsert d row)) = questions d"
  "quizzes (snd (score_upsert d row)) = quizzes d"
  "users (snd (score_upsert d row)) = users d"
  "rounds (snd (score_upsert d row)) = rounds d"
  "positions (snd (score_upsert d row)) = positions d"
  "participantOrders (snd (score_upsert d row)) = participantOrders d"
  by (simp_all add: score_upsert_def Let_def)

lemma calculateRoundScore_frame:
  "responses (snd (calculateRoundScore d u qz r)) = responses d"
  "questions (snd (calculateRoundScore d u qz r)) = questions d"
  "quizzes (snd (calculateRoundScore d u qz r)) = quizzes d"
  "users (snd (calculateRoundScore d u qz r)) = users d"
  "rounds (snd (calculateRoundScore d u qz r)) = rounds d"
  "positions (snd (calculateRoundScore d u qz r)) = positions d"
  "participantOrders (snd (calculateRoundScore d u qz r)) = participantOrders d"
  by (simp_all add: calculateRoundScore_def Let_def score_upsert_frame)

lemma updateQuizPositions_frame:
  "responses (snd (updateQuizPositions d qid)) = responses d"
  "questions (snd (updateQuizPositions d qid)) = questions d"
  "scores (snd (updateQuizPositions d qid)) = scores d"
  "users (snd (updateQuizPositions d qid)) = users d"
  "rounds (snd (updateQuizPositions d qid)) = rounds d"
  "participantOrders (snd (updateQuizPositions d qid)) = participantOrders d"
  by (simp_all add: updateQuizPositions_def Let_def split: sum.split list.split)

lemma submitResponse_success:
  assumes "submitResponse d u qn sel r points correct = (Inr resp, d')"
  shows "\<exists>question. find (\<lambda>q. question_id q = qn) (questions d) = Some question
           \<and> quizId resp = question_quizId question
           \<and> d' = snd (updateQuizPositions
                         (snd (calculateRoundScore (d\<lparr>responses := responses d @ [resp]\<rparr>) u
                                 (question_quizId question) r))
                         (question_quizId question))
           \<and> fst (calculateRoundScore (d\<lparr>responses := responses d @ [resp]\<rparr>) u
                                 (question_quizId question) r) = Inr ()
           \<and> (u \<in> set (map user_id (users d)))
           \<and> question_quizId question \<in> set (map quiz_id (quizzes d))"
    and "find (\<lambda>x. userId x = u \<and> questionId x = qn) (responses d) = None"
    and "responses d' = responses d @ [resp]"
    and "userId resp = u" and "questionId resp = qn" and "roundId resp = r"
    and "selectedIndex resp = sel" and "isCorrect resp = correct" and "pointsEarned resp = points"
    and "questions d' = questions d" and "users d' = users d" and "rounds d' = rounds d"
proof -
  obtain question where q: "find (\<lambda>q. question_id q = qn) (questions d) = Some question"
    using assms by (cases "find (\<lambda>q. question_id q = qn) (questions d)") (auto simp: submitResponse_def)
  show n: "find (\<lambda>x. userId x = u \<and> questionId x = qn) (responses d) = None"
    using assms q by (cases "find (\<lambda>x. userId x = u \<and> questionId x = qn) (responses d)") (auto simp: submitResponse_def)
  let ?resp = "\<lparr>userId = u, quizId = question_quizId question, roundId = r,
                      questionId = qn, selectedIndex = sel, isCorrect = correct,
                      pointsEarned = points\<rparr>"
  let ?d1 = "d\<lparr>responses := responses d @ [?resp]\<rparr>"
  let ?c = "calculateRoundScore ?d1 u (question_quizId question) r"
  let ?p = "updateQuizPositions (snd ?c) (question_quizId question)"
  have r: "resp = ?resp" and d': "d' = snd ?p" and c: "fst ?c = Inr ()"
    and fk: "u \<in> set (map user_id (users d))" "question_quizId question \<in> set (map quiz_id (quizzes d))"
    using assms q n
    by (auto simp: submitResponse_def Let_def split: if_splits prod.splits sum.splits)
  show "\<exists>question. find (\<lambda>q. question_id q = qn) (questions d) = Some question
           \<and> quizId resp = question_quizId question
           \<and> d' = snd (updateQuizPositions
                         (snd (calculateRoundScore (d\<lparr>responses := responses d @ [resp]\<rparr>) u
                                 (question_quizId question) r))
                         (question_quizId question))
           \<and> fst (calculateRoundScore (d\<lparr>responses := responses d @ [resp]\<rparr>) u
                                 (question_quizId question) r) = Inr ()
           \<and> (u \<in> set (map user_id (users d)))
           \<and> question_quizId question \<in> set (map quiz_id (quizzes d))"
    using q r d' c fk by (intro exI[of _ question]) simp
  show "responses d' = responses d @ [resp]"
    by (simp add: d' r updateQuizPositions_frame calculateRoundScore_frame)
  show "userId resp = u" "questionId resp = qn" "roundId resp = r"
    "selectedIndex resp = sel" "isCorrect resp = correct" "pointsEarned resp = points"
    by (simp_all add: r)
  show "questions d' = questions d"
    by (simp add: d' updateQuizPositions_frame calculateRoundScore_frame)
  show "users d' = users d"
    by (simp add: d' updateQuizPositions_frame calculateRoundScore_frame)
  show "rounds d' = rounds d"
    by (simp add: d' updateQuizPositions_frame calculateRoundScore_frame)
qed

lemma find_None_iff_key: "find (\<lambda>x. f x = k) xs = None \<longleftrightarrow> k \<notin> set (map f xs)"
  by (induction xs) auto

lemma find_map_keep:
  assumes "\<And>x. f (g x) = f x"
  shows "find (\<lambda>x. f x = k) (map g xs) = map_option g (find (\<lambda>x. f x = k) xs)"
  using assms by (induction xs) auto

lemma accumulate_nonempty: "accumulate d acc s \<noteq> []"
  by (auto simp: accumulate_def Let_def)

lemma foldl_accumulate_nonempty: "acc \<noteq> [] \<or> xs \<noteq> [] \<Longrightarrow> foldl (accumulate d) acc xs \<noteq> []"
  by (induction xs arbitrary: acc) (auto simp: accumulate_nonempty)

lemma sort_key_nonempty: "xs \<noteq> [] \<Longrightarrow> sort_key f xs \<noteq> []"
  by (metis length_sort list.size(3) length_0_conv)

lemma accumulate_cong: "rounds d' = rounds d \<Longrightarrow> accumulate d' = accumulate d"
  by (intro ext) (simp add: accumulate_def add_to_entry_def score_roundNumber_def Let_def)

lemma getQuizLeaderboard_cong:
  assumes "map quiz_id (quizzes d') = map quiz_id (quizzes d)" "scores d' = scores d" "rounds d' = rounds d"
  shows "getQuizLeaderboard d' qid = getQuizLeaderboard d qid"
proof -
  have "find (\<lambda>q. quiz_id q = qid) (quizzes d') = None \<longleftrightarrow> find (\<lambda>q. quiz_id q = qid) (quizzes d) = None"
    using assms(1) by (simp add: find_None_iff_key)
  then show ?thesis
    using assms(2) accumulate_cong[OF assms(3)]
    by (auto simp: getQuizLeaderboard_def findQuizById_def split: option.splits)
qed

lemma getQuizLeaderboard_shape:
  assumes "qid \<in> set (map quiz_id (quizzes d))" "qid \<in> set (map score_quizId (scores d))"
  shows "\<exists>first rest. getQuizLeaderboard d qid = Inr (first # rest) \<and> entry_position first = 1"
proof -
  let ?userScores = "filter (\<lambda>s. score_quizId s = qid) (scores d)"
  let ?sorted = "sort_key (\<lambda>e. - entry_totalScore e) (foldl (accumulate d) [] ?userScores)"
  have "?userScores \<noteq> []" using assms(2) by (auto simp: filter_empty_conv)
  then have "?sorted \<noteq> []" by (intro sort_key_nonempty foldl_accumulate_nonempty) simp
  then obtain e es where s: "?sorted = e # es" by (cases ?sorted) auto
  obtain q where "find (\<lambda>q. quiz_id q = qid) (quizzes d) = Some q"
    using assms(1) find_None_iff_key[of quiz_id qid "quizzes d"] by (cases "find (\<lambda>q. quiz_id q = qid) (quizzes d)") auto
  then show ?thesis
    by (simp add: getQuizLeaderboard_def findQuizById_def Let_def s)
qed

lemma score_upsert_ok:
  "fst (score_upsert d row) = Inr () \<Longrightarrow> score_quizId row \<in> set (map score_quizId (scores (snd (score_upsert d row))))"
  by (auto simp: score_upsert_def Let_def score_matches_def list_ex_iff image_iff split: if_splits)

lemma calculateRoundScore_ok:
  "fst (calculateRoundScore d u qz r) = Inr () \<Longrightarrow> qz \<in> set (map score_quizId (scores (snd (calculateRoundScore d u qz r))))"
  unfolding calculateRoundScore_def Let_def
  using score_upsert_ok by fastforce

lemma updateQuizPositions_result:
  assumes "getQuizLeaderboard d qid = Inr (first # rest)"
  shows "positions (snd (updateQuizPositions d qid)) =
           filter (\<lambda>p. position_quizId p \<noteq> qid) (positions d) @ map (position_of qid) (first # rest)"
    and "quizzes (snd (updateQuizPositions d qid)) =
           map (\<lambda>q. if quiz_id q = qid then q\<lparr>winnerId := Some (entry_user first)\<rparr> else q) (quizzes d)"
  using assms by (simp_all add: updateQuizPositions_def Let_def)

lemma find_None_iff_pair:
  "find (\<lambda>x. userId x = u \<and> questionId x = qn) xs = None \<longleftrightarrow> (u, qn) \<notin> set (map response_key xs)"
  by (induction xs) (auto simp: response_key_def)

lemma calculateRoundScore_responses:
  "calculateRoundScore d u qz r = (x, d2) \<Longrightarrow> responses d2 = responses d"
  using calculateRoundScore_frame(1)[of d u qz r] by simp

lemma updateQuizPositions_responses:
  "updateQuizPositions d qid = (x, d2) \<Longrightarrow> responses d2 = responses d"
  using updateQuizPositions_frame(1)[of d qid] by simp

lemma submitResponse_responses:
  "responses (snd (submitResponse d u qn sel r p c)) = responses d
   \<or> (find (\<lambda>x. userId x = u \<and> questionId x = qn) (responses d) = None
      \<and> (\<exists>resp. response_key resp = (u, qn)
            \<and> responses (snd (submitResponse d u qn sel r p c)) = responses d @ [resp]))"
proof (cases "find (\<lambda>q. question_id q = qn) (questions d)")
  case None
  then show ?thesis by (simp add: submitResponse_def)
next
  case (Some question)
  note q = this
  show ?thesis
  proof (cases "find (\<lambda>x. userId x = u \<and> questionId x = qn) (responses d)")
    case (Some a)
    then show ?thesis using q by (simp add: submitResponse_def)
  next
    case None
    let ?resp = "\<lparr>userId = u, quizId = question_quizId question, roundId = r,
                   questionId = qn, selectedIndex = sel, isCorrect = c, pointsEarned = p\<rparr>"
    show ?thesis
    proof (cases "int4 sel \<and> int4 p \<and> u \<in> set (map user_id (users d))
                      \<and> question_quizId question \<in> set (map quiz_id (quizzes d))")
      case False
      then show ?thesis using q None by (auto simp: submitResponse_def)
    next
      case True
      have "responses (snd (submitResponse d u qn sel r p c)) = responses d @ [?resp]"
        using q None True
        by (auto simp: submitResponse_def Let_def split: prod.splits sum.splits
              dest!: calculateRoundScore_responses updateQuizPositions_responses)
      moreover have "response_key ?resp = (u, qn)" by (simp add: response_key_def)
      ultimately show ?thesis using None by blast
    qed
  qed
qed

lemma points_and_type_table:
  "points_and_type (Some rnd) bs u c = (p, t) \<Longrightarrow> pointsFor (mode_of (quizType rnd)) t c = Some p"
  by (cases "quizType rnd"; cases c)
     (auto simp: points_and_type_def mode_of_def split: option.splits if_splits)

lemma findIndex_first:
  "i < length xs \<Longrightarrow> P (xs ! i) \<Longrightarrow> \<forall>j<i. \<not> P (xs ! j) \<Longrightarrow> findIndex P xs = int i"
proof (induction xs arbitrary: i)
  case Nil
  then show ?case by simp
next
  case (Cons x xs)
  show ?case
  proof (cases i)
    case 0
    then show ?thesis using Cons.prems by simp
  next
    case (Suc k)
    then have "\<not> P x" using Cons.prems(3) by auto
    moreover have "findIndex P xs = int k"
      using Cons.prems Suc by (intro Cons.IH) auto
    ultimately show ?thesis using Suc by (simp add: Let_def)
  qed
qed

lemma ex_confirmed_facts:
  "connectedUsers ex_confirmed ''s_mod'' = Some (ex_info ''mod'' MODERATOR)"
  "selected_answer (redis ex_confirmed) (''quiz1'', ''q1'') = None"
  "active_participant (redis ex_confirmed) ''quiz1'' = Some ''bob''"
  "map (\<lambda>x. (userId x, questionId x, pointsEarned x)) (responses (database ex_confirmed))
     = [(''alice'', ''q1'', 2)]"
  by (simp_all add: ex_confirmed_def ex_selected_def gateway_defs model_defs ex_defs)

section \<open>Facts about the gateway\<close>













lemma emit_bonusState: "bonusState (emit t e st) = bonusState st"
  by (simp add: emit_def)

lemma proceedToNext_bonusState: "bonusState (proceedToNext st qz rid w) = bonusState st"
  by (simp add: emit_bonusState proceedToNext_def Let_def split: option.splits sum.splits)

lemma autoAdvanceAfterBonus_bonusState: "bonusState (autoAdvanceAfterBonus st qz rid) = bonusState st"
  by (simp add: emit_bonusState autoAdvanceAfterBonus_def Let_def split: option.splits sum.splits)

lemma processAnswer_bonusState:
  "bonusState (snd (processAnswer st qz rid u qn sel)) q = None
   \<or> bonusState (snd (processAnswer st qz rid u qn sel)) q = bonusState st q"
  by (simp add: emit_bonusState processAnswer_def Let_def split: sum.splits option.splits prod.splits)

lemma processAnswer_bonusState':
  "processAnswer st qz rid u qn sel = (r, st1) \<Longrightarrow>
     bonusState st1 q = None \<or> bonusState st1 q = bonusState st q"
  using processAnswer_bonusState[of st qz rid u qn sel q] by simp

lemma loadParticipantOrder_bonusState:
  "loadParticipantOrder st qz = (order, st1) \<Longrightarrow> bonusState st1 = bonusState st"
  by (auto simp: emit_bonusState loadParticipantOrder_def split: option.splits prod.splits)

lemma loadRoundQuestions_bonusState:
  "loadRoundQuestions st qz rnd = (pool, st1) \<Longrightarrow> bonusState st1 = bonusState st"
  by (auto simp: emit_bonusState loadRoundQuestions_def Let_def split: option.splits)

lemma handleStartRound_bonusState: "bonusState (handleStartRound st c qz rid) = bonusState st"
  by (auto simp: emit_bonusState handleStartRound_def Let_def
      split: option.splits sum.splits prod.splits list.splits
      dest!: loadParticipantOrder_bonusState loadRoundQuestions_bonusState)

lemma handleCheckRoundReadiness_bonusState:
  "bonusState (handleCheckRoundReadiness st c qz rid) = bonusState st"
  by (simp add: emit_bonusState handleCheckRoundReadiness_def Let_def split: option.splits sum.splits)

lemma handleJoinQuiz_bonusState: "bonusState (handleJoinQuiz st c qz) = bonusState st"
  by (auto simp: emit_bonusState handleJoinQuiz_def Let_def split: option.splits prod.splits
      dest!: loadParticipantOrder_bonusState)

lemma handleUpdateParticipantOrder_bonusState:
  "bonusState (handleUpdateParticipantOrder st c qz new) = bonusState st"
  by (simp add: emit_bonusState handleUpdateParticipantOrder_def split: option.splits)

lemma handleSendMessage_bonusState: "bonusState (handleSendMessage st c qz m) = bonusState st"
  by (simp add: emit_bonusState handleSendMessage_def split: option.splits)

lemma handleSkipQuestion_bonusState: "bonusState (handleSkipQuestion st c qz rid n) = bonusState st"
  by (simp add: emit_bonusState handleSkipQuestion_def split: option.splits)

lemma handleEndSimultaneousSession_bonusState:
  "bonusState (handleEndSimultaneousSession st c qz rid) = bonusState st"
  by (simp add: emit_bonusState handleEndSimultaneousSession_def Let_def split: option.splits)

lemma handleSelectAnswer_bonusState: "bonusState (handleSelectAnswer st c qz rid qn sel) = bonusState st"
  by (simp add: emit_bonusState handleSelectAnswer_def split: option.splits)

lemma handleSubmitSimultaneousAnswer_bonusState:
  "bonusState (handleSubmitSimultaneousAnswer st c qz rid qn sel n) q = None
   \<or> bonusState (handleSubmitSimultaneousAnswer st c qz rid qn sel n) q = bonusState st q"
  by (auto simp: emit_bonusState handleSubmitSimultaneousAnswer_def split: option.splits prod.splits sum.splits
      dest: processAnswer_bonusState'[where q = q])

lemma handleConfirmAnswer_bonusState:
  "bonusState (handleConfirmAnswer st c qz rid qn) q = None
   \<or> bonusState (handleConfirmAnswer st c qz rid qn) q = bonusState st q"
  by (auto simp: emit_bonusState handleConfirmAnswer_def Let_def proceedToNext_bonusState
      split: option.splits prod.splits sum.splits
      dest: processAnswer_bonusState'[where q = q])

lemma handleAutoConfirmAnswer_bonusState:
  "bonusState (handleAutoConfirmAnswer st c qz rid qn sel) q = None
   \<or> bonusState (handleAutoConfirmAnswer st c qz rid qn sel) q = bonusState st q"
  by (auto simp: emit_bonusState handleAutoConfirmAnswer_def Let_def proceedToNext_bonusState
      split: option.splits prod.splits sum.splits
      dest: processAnswer_bonusState'[where q = q])

lemma handle_bonusState:
  "bonusState (handle st cmd) q = None \<or> bonusState (handle st cmd) q = bonusState st q"
  using handleSubmitSimultaneousAnswer_bonusState handleConfirmAnswer_bonusState
    handleAutoConfirmAnswer_bonusState
  by (cases cmd)
     (simp_all add: emit_bonusState handleStartRound_bonusState handleCheckRoundReadiness_bonusState
        handleJoinQuiz_bonusState handleUpdateParticipantOrder_bonusState
        handleSendMessage_bonusState handleSkipQuestion_bonusState
        handleEndSimultaneousSession_bonusState handleSelectAnswer_bonusState
        autoAdvanceAfterBonus_bonusState)

section \<open>Scoring\<close>

text \<open>
  Claim C1. Whenever \<open>processAnswer\<close> scores an answer (returns a result), the answer
  counts as correct exactly when the selected option is the \<open>correctAnswerIndex\<close> of the
  question cached under the given id. The answer type is normal in simultaneous mode; in
  a sequential mode it is bonus for the bonus user of an active bonus state, original
  return for the original user of an inactive one, and normal otherwise. The points
  reported are the entry of the specification's table for the round's mode, that answer
  type and that correctness: 5 for a correct answer in simultaneous mode, 2 for a correct
  normal answer, 1 for a correct bonus answer and 2 for a correct original-return answer
  in a sequential mode, 0 for every incorrect answer. The one Response persisted for the
  answering user and question carries the same correctness and points.
\<close>

theorem processAnswer_points:
  assumes "processAnswer st qz rid u qn sel = (Inr out, st')"
  shows "\<exists>cached question rnd resp.
             quiz_questions (redis st) qz = Some cached
           \<and> find (\<lambda>q. question_id q = qn) cached = Some question
           \<and> outcome_isCorrect out = (sel = correctAnswerIndex question)
           \<and> find (\<lambda>r. round_id r = rid) (rounds (database st)) = Some rnd
           \<and> outcome_answerType out =
               (if quizType rnd = simultaneous then normal
                else case bonusState st qz of
                       None \<Rightarrow> normal
                     | Some b \<Rightarrow>
                         if isActive b \<and> bonusUserId b = u then bonus
                         else if \<not> isActive b \<and> originalUserId b = u then original_return
                         else normal)
           \<and> pointsFor (mode_of (quizType rnd)) (outcome_answerType out) (outcome_isCorrect out)
               = Some (outcome_points out)
           \<and> outcome_points out =
               (if sel = correctAnswerIndex question
                then (if quizType rnd = simultaneous then 5
                      else if outcome_answerType out = bonus then 1 else 2)
                else 0)
           \<and> responses (database st') = responses (database st) @ [resp]
           \<and> userId resp = u \<and> questionId resp = qn
           \<and> isCorrect resp = outcome_isCorrect out
           \<and> pointsEarned resp = outcome_points out"
proof -
  obtain v where v: "validateAnswer (redis st) qz qn sel = Inr v"
    using assms by (cases "validateAnswer (redis st) qz qn sel") (auto simp: processAnswer_def)
  obtain cached where c: "quiz_questions (redis st) qz = Some cached"
    using v by (cases "quiz_questions (redis st) qz") (auto simp: validateAnswer_def)
  obtain question where q: "find (\<lambda>q. question_id q = qn) cached = Some question"
    using v c by (cases "find (\<lambda>q. question_id q = qn) cached") (auto simp: validateAnswer_def)
  have vc: "validation_isCorrect v = (sel = correctAnswerIndex question)"
    using v c q by (auto simp: validateAnswer_def)
  obtain rnd where rnd: "find (\<lambda>r. round_id r = rid) (rounds (database st)) = Some rnd"
    using assms v
    by (cases "find (\<lambda>r. round_id r = rid) (rounds (database st))")
       (auto simp: processAnswer_def Let_def split: prod.splits)
  obtain p t where pt: "points_and_type (Some rnd) (bonusState st qz) u (validation_isCorrect v) = (p, t)"
    by (cases "points_and_type (Some rnd) (bonusState st qz) u (validation_isCorrect v)") auto
  obtain resp d where s: "submitResponse (database st) u qn sel (round_id rnd) p (validation_isCorrect v) = (Inr resp, d)"
    and d: "database st' = d"
    and out: "out = \<lparr>outcome_isCorrect = validation_isCorrect v, outcome_points = p,
                     outcome_correctAnswerIndex = validation_correctAnswerIndex v,
                     outcome_answerType = t\<rparr>"
    using assms v rnd pt
    by (auto simp: processAnswer_def Let_def emit_def split: prod.splits sum.splits if_splits)
  have t: "t = (if quizType rnd = simultaneous then normal
                else case bonusState st qz of
                       None \<Rightarrow> normal
                     | Some b \<Rightarrow>
                         if isActive b \<and> bonusUserId b = u then bonus
                         else if \<not> isActive b \<and> originalUserId b = u then original_return
                         else normal)"
    using pt by (auto simp: points_and_type_def split: option.splits if_splits)
  have p: "p = (if validation_isCorrect v
                then (if quizType rnd = simultaneous then 5 else if t = bonus then 1 else 2)
                else 0)"
    using pt by (auto simp: points_and_type_def split: option.splits if_splits)
  note f = submitResponse_success(3-9)[OF s]
  have tab: "pointsFor (mode_of (quizType rnd)) t (validation_isCorrect v) = Some p"
    by (rule points_and_type_table[OF pt])
  show ?thesis
    apply (intro exI[of _ cached] exI[of _ question] exI[of _ rnd] exI[of _ resp])
    using c q vc rnd t p tab f d out by simp
qed

theorem processAnswer_points_witness:
  "fst (processAnswer ex_state ''quiz1'' ''r1'' ''alice'' ''q1'' 1)
     = Inr \<lparr>outcome_isCorrect = True, outcome_points = 2, outcome_correctAnswerIndex = 1,
            outcome_answerType = normal\<rparr>
   \<and> pointsFor (mode_of multiple_choice) normal True = Some 2
   \<and> map pointsEarned
        (responses (database (snd (processAnswer ex_state ''quiz1'' ''r1'' ''alice'' ''q1'' 1))))
       = [2]
   \<and> fst (processAnswer ex_state ''quiz1'' ''r1'' ''alice'' ''q1'' 0)
     = Inr \<lparr>outcome_isCorrect = False, outcome_points = 0, outcome_correctAnswerIndex = 1,
            outcome_answerType = normal\<rparr>
   \<and> pointsFor (mode_of multiple_choice) normal False = Some 0
   \<and> map (\<lambda>x. (isCorrect x, pointsEarned x))
        (responses (database (snd (processAnswer ex_state ''quiz1'' ''r1'' ''alice'' ''q1'' 0))))
       = [(False, 0)]
   \<and> fst (processAnswer ex_bonus ''quiz1'' ''r1'' ''bob'' ''q1'' 1)
     = Inr \<lparr>outcome_isCorrect = True, outcome_points = 1, outcome_correctAnswerIndex = 1,
            outcome_answerType = bonus\<rparr>
   \<and> pointsFor (mode_of multiple_choice) bonus True = Some 1"
proof -
  let ?out = "\<lparr>outcome_isCorrect = True, outcome_points = 2, outcome_correctAnswerIndex = 1,
            outcome_answerType = normal\<rparr>"
  let ?st' = "snd (processAnswer ex_state ''quiz1'' ''r1'' ''alice'' ''q1'' 1)"
  let ?outw = "\<lparr>outcome_isCorrect = False, outcome_points = 0, outcome_correctAnswerIndex = 1,
            outcome_answerType = normal\<rparr>"
  let ?stw = "snd (processAnswer ex_state ''quiz1'' ''r1'' ''alice'' ''q1'' 0)"
  let ?outb = "\<lparr>outcome_isCorrect = True, outcome_points = 1, outcome_correctAnswerIndex = 1,
            outcome_answerType = bonus\<rparr>"
  let ?stb = "snd (processAnswer ex_bonus ''quiz1'' ''r1'' ''bob'' ''q1'' 1)"
  have e: "fst (processAnswer ex_state ''quiz1'' ''r1'' ''alice'' ''q1'' 1) = Inr ?out"
    by code_simp
  then have h: "processAnswer ex_state ''quiz1'' ''r1'' ''alice'' ''q1'' 1 = (Inr ?out, ?st')"
    by (simp add: prod_eq_iff)
  have ew: "fst (processAnswer ex_state ''quiz1'' ''r1'' ''alice'' ''q1'' 0) = Inr ?outw"
    by code_simp
  then have hw: "processAnswer ex_state ''quiz1'' ''r1'' ''alice'' ''q1'' 0 = (Inr ?outw, ?stw)"
    by (simp add: prod_eq_iff)
  have eb: "fst (processAnswer ex_bonus ''quiz1'' ''r1'' ''bob'' ''q1'' 1) = Inr ?outb"
    by code_simp
  then have hb: "processAnswer ex_bonus ''quiz1'' ''r1'' ''bob'' ''q1'' 1 = (Inr ?outb, ?stb)"
    by (simp add: prod_eq_iff)
  have r0: "responses (database ex_state) = []" "responses (database ex_bonus) = []"
    by (simp_all add: ex_bonus_def ex_state_def ex_db_def)
  from processAnswer_points[OF h] obtain rnd resp where
    r: "find (\<lambda>r. round_id r = ''r1'') (rounds (database ex_state)) = Some rnd"
    and p: "pointsFor (mode_of (quizType rnd)) normal True = Some 2"
    and a: "responses (database ?st') = responses (database ex_state) @ [resp]"
           "pointsEarned resp = 2"
    by auto
  from processAnswer_points[OF hw] obtain rndw respw where
    rw: "find (\<lambda>r. round_id r = ''r1'') (rounds (database ex_state)) = Some rndw"
    and pw: "pointsFor (mode_of (quizType rndw)) normal False = Some 0"
    and aw: "responses (database ?stw) = responses (database ex_state) @ [respw]"
           "pointsEarned respw = 0" "isCorrect respw = False"
    by auto
  from processAnswer_points[OF hb] obtain rndb where
    rb: "find (\<lambda>r. round_id r = ''r1'') (rounds (database ex_bonus)) = Some rndb"
    and pb: "pointsFor (mode_of (quizType rndb)) bonus True = Some 1"
    by auto
  have f: "find (\<lambda>r. round_id r = ''r1'') (rounds (database ex_state))
          = Some (ex_round ''r1'' 1 multiple_choice True)"
    "find (\<lambda>r. round_id r = ''r1'') (rounds (database ex_bonus))
          = Some (ex_round ''r1'' 1 multiple_choice True)"
    by (simp_all add: ex_bonus_def ex_defs)
  with r rw rb have "quizType rnd = multiple_choice" "quizType rndw = multiple_choice"
    "quizType rndb = multiple_choice"
    by (auto simp: ex_round_def)
  with p pw pb a aw e ew eb r0 show ?thesis by simp
qed

section \<open>Duplicate responses\<close>

text \<open>
  Claim C2. \<open>submitResponse\<close> keeps at most one Response per (participant, question)
  pair: if the pairs of the stored Responses are distinct before a submit they are
  distinct after it, whatever its outcome. A submit for a pair that already has a
  Response (on an existing question) is rejected with the conflict exception and returns
  the database as it was. In particular, after a submit that succeeded the pair has exactly
  one Response, and any second submit for the pair is rejected that way and changes nothing,
  so stored Responses, round scores and the leaderboard computed from them stay the same.
\<close>

theorem submitResponse_at_most_one:
  assumes "distinct (map response_key (responses d))"
  shows "distinct (map response_key (responses (snd (submitResponse d u qn sel r points correct))))
       \<and> ((u, qn) \<in> set (map response_key (responses d)) \<and> qn \<in> set (map question_id (questions d))
            \<longrightarrow> submitResponse d u qn sel r points correct
                  = (Inl (ConflictException ''User has already answered this question''), d))
       \<and> (\<forall>resp d1. submitResponse d u qn sel r points correct = (Inr resp, d1)
            \<longrightarrow> length (filter (\<lambda>x. response_key x = (u, qn)) (responses d1)) = 1
              \<and> submitResponse d1 u qn sel' r' points' correct'
                  = (Inl (ConflictException ''User has already answered this question''), d1))"
proof (intro conjI impI allI)
  show "distinct (map response_key (responses (snd (submitResponse d u qn sel r points correct))))"
    using submitResponse_responses[of d u qn sel r points correct] assms
    by (auto simp: find_None_iff_pair)
next
  assume a: "(u, qn) \<in> set (map response_key (responses d)) \<and> qn \<in> set (map question_id (questions d))"
  then obtain x q where "find (\<lambda>x. userId x = u \<and> questionId x = qn) (responses d) = Some x"
    "find (\<lambda>q. question_id q = qn) (questions d) = Some q"
    using find_None_iff_pair[of u qn "responses d"] find_None_iff_key[of question_id qn "questions d"]
    by (cases "find (\<lambda>x. userId x = u \<and> questionId x = qn) (responses d)";
        cases "find (\<lambda>q. question_id q = qn) (questions d)") auto
  then show "submitResponse d u qn sel r points correct
                  = (Inl (ConflictException ''User has already answered this question''), d)"
    by (simp add: submitResponse_def)
next
  fix resp d1 assume s: "submitResponse d u qn sel r points correct = (Inr resp, d1)"
  note f = submitResponse_success[OF s]
  have k: "response_key resp = (u, qn)" using f(4,5) by (simp add: response_key_def)
  have "filter (\<lambda>x. response_key x = (u, qn)) (responses d) = []"
    using f(2) by (force simp: find_None_iff_pair filter_empty_conv image_iff)
  then show "length (filter (\<lambda>x. response_key x = (u, qn)) (responses d1)) = 1"
    by (simp add: f(3) k)
  obtain x q where "find (\<lambda>x. userId x = u \<and> questionId x = qn) (responses d1) = Some x"
    "find (\<lambda>q. question_id q = qn) (questions d1) = Some q"
    using f(1) f(10) f(3) k find_None_iff_pair[of u qn "responses d1"]
    by (cases "find (\<lambda>x. userId x = u \<and> questionId x = qn) (responses d1)") auto
  then show "submitResponse d1 u qn sel' r' points' correct'
                  = (Inl (ConflictException ''User has already answered this question''), d1)"
    by (simp add: submitResponse_def)
qed

theorem submitResponse_at_most_one_witness:
  "distinct (map response_key (responses ex_db))
   \<and> fst (submitResponse ex_db ''alice'' ''q1'' 1 ''r1'' 2 True)
       = Inr \<lparr>userId = ''alice'', quizId = ''quiz1'', roundId = ''r1'', questionId = ''q1'',
               selectedIndex = 1, isCorrect = True, pointsEarned = 2\<rparr>
   \<and> length (filter (\<lambda>x. response_key x = (''alice'', ''q1'')) (responses ex_db1)) = 1
   \<and> submitResponse ex_db1 ''alice'' ''q1'' 0 ''r1'' 0 False
       = (Inl (ConflictException ''User has already answered this question''), ex_db1)
   \<and> distinct (map response_key (responses ex_db1))"
proof -
  let ?resp = "\<lparr>userId = ''alice'', quizId = ''quiz1'', roundId = ''r1'', questionId = ''q1'',
               selectedIndex = 1, isCorrect = True, pointsEarned = 2\<rparr>"
  have d: "distinct (map response_key (responses ex_db))" by (simp add: ex_db_def)
  have e: "fst (submitResponse ex_db ''alice'' ''q1'' 1 ''r1'' 2 True) = Inr ?resp"
    by (simp add: model_defs ex_defs)
  then have h: "submitResponse ex_db ''alice'' ''q1'' 1 ''r1'' 2 True = (Inr ?resp, ex_db1)"
    by (simp add: prod_eq_iff ex_db1_def)
  note t = submitResponse_at_most_one[OF d, of "''alice''" "''q1''" 1 "''r1''" 2 True 0 "''r1''" 0 False]
  from t have "distinct (map response_key (responses ex_db1))"
    by (simp add: ex_db1_def)
  moreover from t h have
    "length (filter (\<lambda>x. response_key x = (''alice'', ''q1'')) (responses ex_db1)) = 1
     \<and> submitResponse ex_db1 ''alice'' ''q1'' 0 ''r1'' 0 False
       = (Inl (ConflictException ''User has already answered this question''), ex_db1)"
    by blast
  ultimately show ?thesis using d e by simp
qed

section \<open>Positions and winner\<close>

text \<open>
  Claim C10. Every successful \<open>submitResponse\<close> leaves the quiz of the answered question
  with a non-empty leaderboard (the submit itself wrote a score row), with stored
  positions that are exactly that leaderboard's lines, whatever positions were stored
  before, and with \<open>winnerId\<close> set to the user on the leaderboard's first line, which
  has position 1. Positions of other quizzes are kept. Nothing in this depends on whether
  a round is still active.
\<close>

theorem submitResponse_recomputes_positions:
  assumes "submitResponse d u qn sel r points correct = (Inr resp, d')"
  shows "\<exists>first rest quiz.
           getQuizLeaderboard d' (quizId resp) = Inr (first # rest)
         \<and> entry_position first = 1
         \<and> filter (\<lambda>p. position_quizId p = quizId resp) (positions d')
             = map (position_of (quizId resp)) (first # rest)
         \<and> filter (\<lambda>p. position_quizId p \<noteq> quizId resp) (positions d')
             = filter (\<lambda>p. position_quizId p \<noteq> quizId resp) (positions d)
         \<and> findQuizById d' (quizId resp) = Inr quiz
         \<and> winnerId quiz = Some (entry_user first)"
proof -
  from submitResponse_success(1)[OF assms] obtain question where
    x: "find (\<lambda>q. question_id q = qn) (questions d) = Some question
           \<and> quizId resp = question_quizId question
           \<and> d' = snd (updateQuizPositions
                         (snd (calculateRoundScore (d\<lparr>responses := responses d @ [resp]\<rparr>) u
                                 (question_quizId question) r))
                         (question_quizId question))
           \<and> fst (calculateRoundScore (d\<lparr>responses := responses d @ [resp]\<rparr>) u
                                 (question_quizId question) r) = Inr ()
           \<and> (u \<in> set (map user_id (users d)))
           \<and> question_quizId question \<in> set (map quiz_id (quizzes d))" ..
  then have qz: "quizId resp = question_quizId question"
    and d': "d' = snd (updateQuizPositions
                         (snd (calculateRoundScore (d\<lparr>responses := responses d @ [resp]\<rparr>) u
                                 (question_quizId question) r))
                         (question_quizId question))"
    and c: "fst (calculateRoundScore (d\<lparr>responses := responses d @ [resp]\<rparr>) u
                                 (question_quizId question) r) = Inr ()"
    and fk: "question_quizId question \<in> set (map quiz_id (quizzes d))"
    by blast+
  let ?qz = "quizId resp"
  let ?d2 = "snd (calculateRoundScore (d\<lparr>responses := responses d @ [resp]\<rparr>) u ?qz r)"
  have d'': "d' = snd (updateQuizPositions ?d2 ?qz)" using d' qz by simp
  have q2: "?qz \<in> set (map quiz_id (quizzes ?d2))"
    using fk qz by (simp add: calculateRoundScore_frame)
  have s2: "?qz \<in> set (map score_quizId (scores ?d2))"
    using calculateRoundScore_ok c qz by simp
  from getQuizLeaderboard_shape[OF q2 s2] obtain first rest where
    lb: "getQuizLeaderboard ?d2 ?qz = Inr (first # rest)" and one: "entry_position first = 1"
    by blast
  note res = updateQuizPositions_result[OF lb, folded d'']
  have "map quiz_id (quizzes d') = map quiz_id (quizzes ?d2)"
    by (simp add: res(2) o_def if_distrib[of quiz_id])
  moreover have "scores d' = scores ?d2" "rounds d' = rounds ?d2"
    by (simp_all add: d'' updateQuizPositions_frame)
  ultimately have same: "getQuizLeaderboard d' ?qz = getQuizLeaderboard ?d2 ?qz"
    by (rule getQuizLeaderboard_cong)
  have p1: "filter (\<lambda>p. position_quizId p = ?qz) (positions d') = map (position_of ?qz) (first # rest)"
    by (simp add: res(1) position_of_def filter_empty_conv)
  have p2: "filter (\<lambda>p. position_quizId p \<noteq> ?qz) (positions d')
             = filter (\<lambda>p. position_quizId p \<noteq> ?qz) (positions d)"
    by (simp add: res(1) position_of_def calculateRoundScore_frame filter_empty_conv)
  obtain q0 where q0: "find (\<lambda>q. quiz_id q = ?qz) (quizzes ?d2) = Some q0"
    using q2 find_None_iff_key[of quiz_id ?qz "quizzes ?d2"]
    by (cases "find (\<lambda>q. quiz_id q = ?qz) (quizzes ?d2)") auto
  then have k0: "quiz_id q0 = ?qz" by (auto simp: find_Some_iff)
  have "find (\<lambda>q. quiz_id q = ?qz) (quizzes d')
          = map_option (\<lambda>q. if quiz_id q = ?qz then q\<lparr>winnerId := Some (entry_user first)\<rparr> else q)
              (find (\<lambda>q. quiz_id q = ?qz) (quizzes ?d2))"
    unfolding res(2) by (rule find_map_keep) simp
  then have w: "findQuizById d' ?qz = Inr (q0\<lparr>winnerId := Some (entry_user first)\<rparr>)"
    by (simp add: findQuizById_def q0 k0)
  show ?thesis
    using lb one same p1 p2 w by (intro exI[of _ first] exI[of _ rest] exI[of _ "q0\<lparr>winnerId := Some (entry_user first)\<rparr>"]) simp
qed

theorem submitResponse_recomputes_positions_witness:
  "fst (submitResponse ex_db ''alice'' ''q1'' 1 ''r1'' 2 True)
       = Inr \<lparr>userId = ''alice'', quizId = ''quiz1'', roundId = ''r1'', questionId = ''q1'',
               selectedIndex = 1, isCorrect = True, pointsEarned = 2\<rparr>
   \<and> map round_isActive (rounds ex_db1) = [True, False]
   \<and> positions ex_db1
       = [\<lparr>position_userId = ''alice'', position_quizId = ''quiz1'', position = 1, totalScore = 2\<rparr>]
   \<and> map_sum id winnerId (findQuizById ex_db1 ''quiz1'') = Inr (Some ''alice'')"
proof -
  let ?resp = "\<lparr>userId = ''alice'', quizId = ''quiz1'', roundId = ''r1'', questionId = ''q1'',
               selectedIndex = 1, isCorrect = True, pointsEarned = 2\<rparr>"
  have e: "fst (submitResponse ex_db ''alice'' ''q1'' 1 ''r1'' 2 True) = Inr ?resp"
    by (simp add: model_defs ex_defs)
  then have h: "submitResponse ex_db ''alice'' ''q1'' 1 ''r1'' 2 True = (Inr ?resp, ex_db1)"
    by (simp add: prod_eq_iff ex_db1_def)
  from submitResponse_recomputes_positions[OF h] obtain first rest quiz where
    lb: "getQuizLeaderboard ex_db1 ''quiz1'' = Inr (first # rest)"
    and p: "filter (\<lambda>p. position_quizId p = ''quiz1'') (positions ex_db1)
              = map (position_of ''quiz1'') (first # rest)"
           "filter (\<lambda>p. position_quizId p \<noteq> ''quiz1'') (positions ex_db1)
              = filter (\<lambda>p. position_quizId p \<noteq> ''quiz1'') (positions ex_db)"
    and w: "findQuizById ex_db1 ''quiz1'' = Inr quiz" "winnerId quiz = Some (entry_user first)"
    by auto
  have s: "scores ex_db1 = [\<lparr>score_userId = ''alice'', score_quizId = ''quiz1'',
                             score_roundId = ''r1'', roundScore = 2, questionsAnswered = 1,
                             questionsCorrect = 1\<rparr>]"
    and r: "rounds ex_db1 = rounds ex_db" and q: "map quiz_id (quizzes ex_db1) = [''quiz1'']"
    by (simp_all add: ex_db1_def model_defs ex_defs)
  have "getQuizLeaderboard ex_db1 ''quiz1''
          = Inr [\<lparr>entry_position = 1, entry_user = ''alice'', entry_totalScore = 2,
                   totalQuestionsAnswered = 1, totalQuestionsCorrect = 1,
                   entry_rounds = [\<lparr>breakdown_roundNumber = 1, breakdown_roundScore = 2,
                                    breakdown_questionsAnswered = 1,
                                    breakdown_questionsCorrect = 1\<rparr>]\<rparr>]"
    using q by (cases "quizzes ex_db1")
      (auto simp: getQuizLeaderboard_def findQuizById_def s r accumulate_def add_to_entry_def
         score_roundNumber_def Let_def ex_db_def ex_round_def)
  with lb have f: "first = \<lparr>entry_position = 1, entry_user = ''alice'', entry_totalScore = 2,
                   totalQuestionsAnswered = 1, totalQuestionsCorrect = 1,
                   entry_rounds = [\<lparr>breakdown_roundNumber = 1, breakdown_roundScore = 2,
                                    breakdown_questionsAnswered = 1,
                                    breakdown_questionsCorrect = 1\<rparr>]\<rparr>" "rest = []"
    by simp_all
  have "filter (\<lambda>p. position_quizId p \<noteq> ''quiz1'') (positions ex_db1) = []"
    using p(2) by (simp add: ex_db_def)
  then have "filter (\<lambda>p. position_quizId p = ''quiz1'') (positions ex_db1) = positions ex_db1"
    by (simp add: filter_empty_conv filter_id_conv)
  with p(1) f have "positions ex_db1
       = [\<lparr>position_userId = ''alice'', position_quizId = ''quiz1'', position = 1, totalScore = 2\<rparr>]"
    by (simp add: position_of_def)
  moreover have "map round_isActive (rounds ex_db1) = [True, False]"
    by (simp add: r ex_db_def ex_round_def)
  ultimately show ?thesis using e w f by simp
qed

section \<open>Turn advancement\<close>

text \<open>
  What \<open>proceedToNext\<close> does when the participant order is in the cache, the question
  index and the round's questions are cached and the active participant is at position
  \<open>i\<close> of the order: the next participant is position \<open>(i + 1) mod n\<close> and the next
  question index is the current one, plus one exactly when that position is 0. While the
  next question index is inside the loaded list, the next participant becomes the active
  participant, the index is stored, a single \<open>nextParticipant\<close> message is broadcast and
  the database is untouched. When it has reached the end of the list, the round is marked
  inactive in the database and the only message is \<open>roundCompleted\<close>.
\<close>

lemma proceedToNext_turn:
  assumes order: "participants (redis st) qz = Some order"
    and active: "active_participant (redis st) qz = Some a" "a \<noteq> []"
    and pos: "i < length order" "participant_userId (order ! i) = a"
             "\<forall>j<i. participant_userId (order ! j) \<noteq> a"
    and idx: "current_question (redis st) (qz, rid) = Some q"
    and qs: "round_questions (redis st) (qz, rid) = Some qs"
    and rnd: "rid \<in> set (map round_id (rounds (database st)))"
  shows "let next = (i + 1) mod length order;
             nq = (if next = 0 then q + 1 else q);
             st' = proceedToNext st qz rid wasCorrect
         in if nq < length qs
            then active_participant (redis st') qz = Some (participant_userId (order ! next))
               \<and> current_question (redis st') (qz, rid) = Some nq
               \<and> outbox st' = outbox st @
                    [(Room qz, nextParticipant (participant_userId (order ! next))
                                 (clientQuestion (qs ! nq)) nq)]
               \<and> database st' = database st
            else rounds (database st')
                   = map (\<lambda>r. if round_id r = rid then r\<lparr>round_isActive := False\<rparr> else r)
                       (rounds (database st))
               \<and> outbox st' = outbox st @ [(Room qz, roundCompleted rid)]
               \<and> redis st' = redis st"
proof -
  have ne: "order \<noteq> []" using pos(1) by auto
  have fi: "findIndex (\<lambda>p. participant_userId p = a) order = int i"
    using pos by (intro findIndex_first) auto
  have nx: "(int i + 1) mod int (length order) = int ((i + 1) mod length order)"
    by (simp add: zmod_int add.commute)
  show ?thesis
    using order active idx qs rnd ne
    by (simp add: proceedToNext_def Let_def fi nx round_update_isActive_def emit_def)
qed

lemma proceedToNext_turn_example:
  "active_participant (redis (proceedToNext ex_state ''quiz1'' ''r1'' True)) ''quiz1'' = Some ''bob''
   \<and> current_question (redis (proceedToNext ex_state ''quiz1'' ''r1'' True)) (''quiz1'', ''r1'') = Some 0
   \<and> map round_isActive (rounds (database (proceedToNext ex_state ''quiz1'' ''r1'' True)))
       = [True, False]
   \<and> map round_isActive (rounds (database (proceedToNext ex_last_turn ''quiz1'' ''r1'' True)))
       = [False, False]
   \<and> outbox (proceedToNext ex_last_turn ''quiz1'' ''r1'' True) = [(Room ''quiz1'', roundCompleted ''r1'')]
   \<and> active_participant (redis (proceedToNext ex_last_turn ''quiz1'' ''r1'' True)) ''quiz1''
       = Some ''bob''"
proof -
  let ?order = "[\<lparr>participant_userId = ''alice'', participant_orderIndex = 0\<rparr>,
                 \<lparr>participant_userId = ''bob'', participant_orderIndex = 1\<rparr>]"
  let ?qs = "take 2 (questions ex_db)"
  have a: "participants (redis ex_state) ''quiz1'' = Some ?order"
    "active_participant (redis ex_state) ''quiz1'' = Some ''alice''" "''alice'' \<noteq> []"
    "0 < length ?order" "participant_userId (?order ! 0) = ''alice''"
    "\<forall>j<0. participant_userId (?order ! j) \<noteq> ''alice''"
    "current_question (redis ex_state) (''quiz1'', ''r1'') = Some 0"
    "round_questions (redis ex_state) (''quiz1'', ''r1'') = Some ?qs"
    "''r1'' \<in> set (map round_id (rounds (database ex_state)))"
    by (simp_all add: ex_defs)
  have b: "participants (redis ex_last_turn) ''quiz1'' = Some ?order"
    "active_participant (redis ex_last_turn) ''quiz1'' = Some ''bob''" "''bob'' \<noteq> []"
    "1 < length ?order" "participant_userId (?order ! 1) = ''bob''"
    "\<forall>j<1. participant_userId (?order ! j) \<noteq> ''bob''"
    "current_question (redis ex_last_turn) (''quiz1'', ''r1'') = Some 1"
    "round_questions (redis ex_last_turn) (''quiz1'', ''r1'') = Some ?qs"
    "''r1'' \<in> set (map round_id (rounds (database ex_last_turn)))"
    by (simp_all add: ex_last_turn_def ex_defs)
  from proceedToNext_turn[OF a, of True]
  have "active_participant (redis (proceedToNext ex_state ''quiz1'' ''r1'' True)) ''quiz1'' = Some ''bob''
   \<and> current_question (redis (proceedToNext ex_state ''quiz1'' ''r1'' True)) (''quiz1'', ''r1'') = Some 0
   \<and> database (proceedToNext ex_state ''quiz1'' ''r1'' True) = database ex_state"
    by (simp add: Let_def ex_db_def)
  moreover from proceedToNext_turn[OF b, of True]
  have "rounds (database (proceedToNext ex_last_turn ''quiz1'' ''r1'' True))
          = map (\<lambda>r. if round_id r = ''r1'' then r\<lparr>round_isActive := False\<rparr> else r)
              (rounds (database ex_last_turn))
   \<and> outbox (proceedToNext ex_last_turn ''quiz1'' ''r1'' True)
       = outbox ex_last_turn @ [(Room ''quiz1'', roundCompleted ''r1'')]
   \<and> redis (proceedToNext ex_last_turn ''quiz1'' ''r1'' True) = redis ex_last_turn"
    by (simp add: Let_def ex_db_def)
  ultimately show ?thesis
    by (simp add: ex_last_turn_def ex_defs)
qed

text \<open>
  Claim C3, evaluated. A sequential round is started in a session whose participant order
  (alice, bob) is the stored default one: \<open>startRound\<close> reads it with the fallback
  \<open>getParticipantOrder(quizId) || getDefaultParticipantOrder(quizId)\<close>, makes alice the
  active participant, and does not put the order in the cache. Alice selects an answer
  and the moderator confirms it, or the answer is auto-confirmed. Either way the answer
  is scored, but \<open>proceedToNext\<close> reads the order from the cache only, finds none and
  returns: alice is still the active participant, the question index is still 0, and no
  \<open>nextParticipant\<close> or \<open>roundCompleted\<close> message is sent. The turn does not move to bob
  as the claim requires.
\<close>

theorem confirm_on_default_order_does_not_advance:
  "participants (redis ex_fresh) ''quiz1'' = None
   \<and> fst (loadParticipantOrder ex_fresh ''quiz1'') = ex_order
   \<and> outbox ex_started
       = [(Room ''quiz1'',
           roundStarted ''r1'' multiple_choice
             \<lparr>start_id = ''q1'', start_questionText = ''?'', start_options = [''Yes'', ''No'']\<rparr>
             ''alice'' ex_order (Some 30) 1)]
   \<and> participants (redis ex_started) ''quiz1'' = None
   \<and> active_participant (redis ex_started) ''quiz1'' = Some ''alice''
   \<and> current_question (redis ex_started) (''quiz1'', ''r1'') = Some 0
   \<and> map question_id (case round_questions (redis ex_started) (''quiz1'', ''r1'') of
                          None \<Rightarrow> [] | Some loaded \<Rightarrow> loaded) = [''q1'', ''q2'']
   \<and> map (\<lambda>x. (userId x, questionId x, pointsEarned x))
         (responses (database ex_started_confirmed)) = [(''alice'', ''q1'', 2)]
   \<and> active_participant (redis ex_started_confirmed) ''quiz1'' = Some ''alice''
   \<and> current_question (redis ex_started_confirmed) (''quiz1'', ''r1'') = Some 0
   \<and> drop 2 (outbox ex_started_confirmed)
       = [(Room ''quiz1'', answerResult ''alice'' ''q1'' True 2 normal),
          (Room ''quiz1'',
           leaderboardUpdate
             [\<lparr>entry_position = 1, entry_user = ''alice'', entry_totalScore = 2,
               totalQuestionsAnswered = 1, totalQuestionsCorrect = 1,
               entry_rounds = [\<lparr>breakdown_roundNumber = 1, breakdown_roundScore = 2,
                                breakdown_questionsAnswered = 1,
                                breakdown_questionsCorrect = 1\<rparr>]\<rparr>])]
   \<and> map (\<lambda>x. (userId x, questionId x, pointsEarned x))
         (responses (database ex_started_auto_confirmed)) = [(''alice'', ''q1'', 2)]
   \<and> active_participant (redis ex_started_auto_confirmed) ''quiz1'' = Some ''alice''
   \<and> current_question (redis ex_started_auto_confirmed) (''quiz1'', ''r1'') = Some 0
   \<and> drop 4 (outbox ex_started_auto_confirmed)
       = [(Room ''quiz1'', answerAutoConfirmed ''q1'' ''alice'' 1 True 2 1)]"
  by code_simp

section \<open>Confirmation without a pending selection\<close>

text \<open>
  Claim C8, as amended. When a moderator invokes \<open>confirmAnswer\<close> for a question that
  has no pending selection, nothing is processed: database, cache, bonus state,
  connections and timers are unchanged. The call is not silent, though: the message
  \<open>error\<close> with the text "No answer selected for this question" is sent to the
  moderator's socket.
\<close>

theorem handleConfirmAnswer_no_selection:
  assumes "connectedUsers st client = Some userInfo" "info_role userInfo = MODERATOR"
    and "selected_answer (redis st) (qz, qn) = None"
  shows "database (handleConfirmAnswer st client qz rid qn) = database st
       \<and> redis (handleConfirmAnswer st client qz rid qn) = redis st
       \<and> bonusState (handleConfirmAnswer st client qz rid qn) = bonusState st
       \<and> connectedUsers (handleConfirmAnswer st client qz rid qn) = connectedUsers st
       \<and> timers (handleConfirmAnswer st client qz rid qn) = timers st
       \<and> outbox (handleConfirmAnswer st client qz rid qn)
           = outbox st @ [(Client client, error_event ''No answer selected for this question'' None)]"
  using assms by (simp add: handleConfirmAnswer_def emit_def)

theorem handleConfirmAnswer_no_selection_witness:
  "selected_answer (redis ex_state) (''quiz1'', ''q1'') = None
   \<and> database (handleConfirmAnswer ex_state ''s_mod'' ''quiz1'' ''r1'' ''q1'') = ex_db
   \<and> redis (handleConfirmAnswer ex_state ''s_mod'' ''quiz1'' ''r1'' ''q1'') = ex_cache
   \<and> outbox (handleConfirmAnswer ex_state ''s_mod'' ''quiz1'' ''r1'' ''q1'')
       = [(Client ''s_mod'', error_event ''No answer selected for this question'' None)]"
proof -
  have h: "connectedUsers ex_state ''s_mod'' = Some (ex_info ''mod'' MODERATOR)"
    "info_role (ex_info ''mod'' MODERATOR) = MODERATOR"
    "selected_answer (redis ex_state) (''quiz1'', ''q1'') = None"
    by (simp_all add: ex_state_def ex_info_def ex_cache_def)
  from handleConfirmAnswer_no_selection[OF h, of "''r1''"] h(3) show ?thesis
    by (simp add: ex_state_def)
qed

text \<open>
  Claim C8 as stated fails: after alice's selection has been confirmed and thereby
  cleared, a second \<open>confirmAnswer\<close> for the same question sends an error message to
  the client.
\<close>

theorem confirm_after_clear_emits_error:
  "selected_answer (redis ex_selected) (''quiz1'', ''q1'')
     = Some \<lparr>selected_userId = ''alice'', selected_selectedIndex = 1\<rparr>
   \<and> selected_answer (redis ex_confirmed) (''quiz1'', ''q1'') = None
   \<and> outbox (handleConfirmAnswer ex_confirmed ''s_mod'' ''quiz1'' ''r1'' ''q1'')
       = outbox ex_confirmed
           @ [(Client ''s_mod'', error_event ''No answer selected for this question'' None)]"
proof -
  have "selected_answer (redis ex_selected) (''quiz1'', ''q1'')
     = Some \<lparr>selected_userId = ''alice'', selected_selectedIndex = 1\<rparr>"
    by (simp add: ex_selected_def handleSelectAnswer_def emit_def ex_defs)
  moreover have "outbox (handleConfirmAnswer ex_confirmed ''s_mod'' ''quiz1'' ''r1'' ''q1'')
       = outbox ex_confirmed
           @ [(Client ''s_mod'', error_event ''No answer selected for this question'' None)]"
    by (simp add: handleConfirmAnswer_def[of ex_confirmed] ex_confirmed_facts ex_info_def emit_def)
  ultimately show ?thesis by (simp add: ex_confirmed_facts)
qed

section \<open>Manual confirmation followed by auto-confirm\<close>

text \<open>
  Claim C4, evaluated on the running example. The moderator confirms alice's selected
  answer to question one, which stores one Response and passes the turn to bob. The
  auto-confirm for the same question then reads the active participant, now bob, and
  scores the payload's option as bob's answer: a second Response for question one is
  stored with 2 points, and the turn moves on again, so bob's own turn is skipped.
\<close>

theorem confirm_then_autoConfirm_scores_twice:
  "map (\<lambda>x. (userId x, questionId x, pointsEarned x)) (responses (database ex_confirmed))
     = [(''alice'', ''q1'', 2)]
   \<and> map (\<lambda>x. (userId x, questionId x, pointsEarned x)) (responses (database ex_auto_confirmed))
     = [(''alice'', ''q1'', 2), (''bob'', ''q1'', 2)]
   \<and> active_participant (redis ex_auto_confirmed) ''quiz1'' = Some ''alice''
   \<and> current_question (redis ex_auto_confirmed) (''quiz1'', ''r1'') = Some 1"
  by (simp add: ex_auto_confirmed_def ex_confirmed_def ex_selected_def handleAutoConfirmAnswer_def
        gateway_defs model_defs ex_defs)

section \<open>Simultaneous rounds\<close>



section \<open>Readiness\<close>

text \<open>
  Claim C6, evaluated. Round two of the example is checked with enough questions
  available (5 of 5). With round one completed, hence inactive, the report names round
  one as incomplete, \<open>previousRoundsCompleted\<close> is false and \<open>canStart\<close> is false. With
  round one still active the report says the prerequisite is met and \<open>canStart\<close> is true.
  The filter of the handler keeps the inactive earlier rounds where the claim, and the
  handler's own naming, want the active ones.
\<close>

theorem readiness_blocks_on_completed_round:
  "outbox (handleCheckRoundReadiness ex_round1_done ''s_mod'' ''quiz1'' ''r2'')
     = [(Client ''s_mod'',
         roundReadinessCheck
           \<lparr>report_roundId = ''r2'', report_roundNumber = 2, report_quizType = multiple_choice,
            isReady = True, canStart = False, required = 5, available = 5, shortage = 0,
            overall_requiredQuestions = 10, overall_currentQuestions = 6, overall_shortfall = 4,
            previousRoundsCompleted = False, incompletePreviousRounds = [''r1'']\<rparr>)]
   \<and> outbox (handleCheckRoundReadiness ex_round1_running ''s_mod'' ''quiz1'' ''r2'')
     = [(Client ''s_mod'',
         roundReadinessCheck
           \<lparr>report_roundId = ''r2'', report_roundNumber = 2, report_quizType = multiple_choice,
            isReady = True, canStart = True, required = 5, available = 5, shortage = 0,
            overall_requiredQuestions = 10, overall_currentQuestions = 6, overall_shortfall = 4,
            previousRoundsCompleted = True, incompletePreviousRounds = []\<rparr>)]"
  by code_simp

section \<open>Question supply for sequential rounds\<close>

text \<open>
  Claim C7, evaluated. For the first round of the example (two participants, two
  questions per participant, five unanswered multiple-choice questions) the question
  service returns the first two questions, fewer than participants times questions per
  participant. With a single unanswered question in the database it returns that one
  question and raises nothing, and \<open>startRound\<close> starts the round on it.
\<close>

theorem sequential_supply_ignores_requirement:
  "length (filter (\<lambda>q. questionType q = question_multiple_choice \<and> \<not> isAnswered q)
             (questions ex_db)) = 5
   \<and> getParticipantCount ex_db ''quiz1'' = 2
   \<and> map question_id (getQuestionsForRound ex_db ''quiz1'' multiple_choice (Some 2) (Some 2))
       = [''q1'', ''q2'']
   \<and> map question_id
        (getQuestionsForRound (database ex_short) ''quiz1'' multiple_choice (Some 2) (Some 2))
       = [''q1'']
   \<and> outbox (handleStartRound ex_short ''s_mod'' ''quiz1'' ''r1'')
       = [(Room ''quiz1'',
           roundStarted ''r1'' multiple_choice
             \<lparr>start_id = ''q1'', start_questionText = ''?'', start_options = [''Yes'', ''No'']\<rparr>
             ''alice'' ex_order (Some 30) 1)]"
  by (simp add: ex_short_def ex_order_def start_defs ex_defs)

section \<open>Bonus state\<close>

text \<open>
  Claim C5, evaluated. No message and no timer creates a bonus state: after any command
  the bonus state of a quiz is what it was before, or absent. In the example, after
  alice's incorrect answer has been confirmed there is no bonus state, the turn has
  moved on to bob, and bob's correct answer to the same question is scored as a normal
  answer worth 2 points.
\<close>

theorem no_operation_creates_bonus_state:
  "(bonusState (handle st cmd) q = None \<or> bonusState (handle st cmd) q = bonusState st q)
   \<and> map (\<lambda>x. (userId x, questionId x, isCorrect x, pointsEarned x))
        (responses (database ex_wrong_confirmed)) = [(''alice'', ''q1'', False, 0)]
   \<and> bonusState ex_wrong_confirmed ''quiz1'' = None
   \<and> active_participant (redis ex_wrong_confirmed) ''quiz1'' = Some ''bob''
   \<and> fst (processAnswer ex_wrong_confirmed ''quiz1'' ''r1'' ''bob'' ''q1'' 1)
       = Inr \<lparr>outcome_isCorrect = True, outcome_points = 2, outcome_correctAnswerIndex = 1,
              outcome_answerType = normal\<rparr>"
proof -
  have "map (\<lambda>x. (userId x, questionId x, isCorrect x, pointsEarned x))
        (responses (database ex_wrong_confirmed)) = [(''alice'', ''q1'', False, 0)]"
    "bonusState ex_wrong_confirmed ''quiz1'' = None"
    "active_participant (redis ex_wrong_confirmed) ''quiz1'' = Some ''bob''"
    "fst (processAnswer ex_wrong_confirmed ''quiz1'' ''r1'' ''bob'' ''q1'' 1)
       = Inr \<lparr>outcome_isCorrect = True, outcome_points = 2, outcome_correctAnswerIndex = 1,
              outcome_answerType = normal\<rparr>"
    by code_simp+
  then show ?thesis using handle_bonusState[of st cmd q] by simp
qed

end
